theory Spec2Isabelle
  imports Main "HOL-Library.Sublist" "HOL-Library.Word"
begin

section \<open>Status enumerations\<close>

text \<open>
  Modelled from the spec: the container and task status enumerations are declared in
  \<^verbatim>\<open>ecs-agent/api/container/status\<close> and \<^verbatim>\<open>ecs-agent/api/task/status\<close>, which are
  not among the sources. The constructors carry the names the sources use
  (\<^verbatim>\<open>apicontainerstatus.ContainerManifestPulled\<close>, \<^verbatim>\<open>apitaskstatus.TaskStopped\<close>, ...)
  and, for the statuses the sources never name, the names of the spec (PULLED,
  RESOURCES_PROVISIONED, task CREATED). The first constructor is the zero value of the Go type.

  The order of the container statuses puts the manifest pull first, as the runtime
  operations of the spec do (pull manifest / pull image / create / start / stop, with
  \<^verbatim>\<open>PullImage(image, digest?)\<close> consuming the digest the manifest pull resolved) and
  as the integration tests observe (MANIFEST_PULLED is the first event of a fresh container).
\<close>

datatype ContainerStatus =
    ContainerStatusNone
  | ContainerManifestPulled
  | ContainerPulled
  | ContainerCreated
  | ContainerRunning
  | ContainerResourcesProvisioned
  | ContainerStopped

datatype TaskStatus =
    TaskStatusNone
  | TaskManifestPulled
  | TaskCreated
  | TaskRunning
  | TaskStopped

fun ContainerStatus_rank :: "ContainerStatus \<Rightarrow> nat" where
  "ContainerStatus_rank ContainerStatusNone = 0"
| "ContainerStatus_rank ContainerManifestPulled = 1"
| "ContainerStatus_rank ContainerPulled = 2"
| "ContainerStatus_rank ContainerCreated = 3"
| "ContainerStatus_rank ContainerRunning = 4"
| "ContainerStatus_rank ContainerResourcesProvisioned = 5"
| "ContainerStatus_rank ContainerStopped = 6"

fun TaskStatus_rank :: "TaskStatus \<Rightarrow> nat" where
  "TaskStatus_rank TaskStatusNone = 0"
| "TaskStatus_rank TaskManifestPulled = 1"
| "TaskStatus_rank TaskCreated = 2"
| "TaskStatus_rank TaskRunning = 3"
| "TaskStatus_rank TaskStopped = 4"

text \<open>Go's \<^verbatim>\<open>a >= b\<close> on two statuses of one enumeration.\<close>

definition ContainerStatus_ge :: "ContainerStatus \<Rightarrow> ContainerStatus \<Rightarrow> bool" where
  "ContainerStatus_ge a b = (ContainerStatus_rank b \<le> ContainerStatus_rank a)"

definition TaskStatus_ge :: "TaskStatus \<Rightarrow> TaskStatus \<Rightarrow> bool" where
  "TaskStatus_ge a b = (TaskStatus_rank b \<le> TaskStatus_rank a)"

text \<open>
  Modelled from the spec: the \<^verbatim>\<open>String()\<close> methods of the two enumerations are not among
  the sources; the strings are the status names of the spec. They only appear inside
  error messages.
\<close>

fun ContainerStatus_String :: "ContainerStatus \<Rightarrow> string" where
  "ContainerStatus_String ContainerStatusNone = ''NONE''"
| "ContainerStatus_String ContainerManifestPulled = ''MANIFEST_PULLED''"
| "ContainerStatus_String ContainerPulled = ''PULLED''"
| "ContainerStatus_String ContainerCreated = ''CREATED''"
| "ContainerStatus_String ContainerRunning = ''RUNNING''"
| "ContainerStatus_String ContainerResourcesProvisioned = ''RESOURCES_PROVISIONED''"
| "ContainerStatus_String ContainerStopped = ''STOPPED''"

fun TaskStatus_String :: "TaskStatus \<Rightarrow> string" where
  "TaskStatus_String TaskStatusNone = ''NONE''"
| "TaskStatus_String TaskManifestPulled = ''MANIFEST_PULLED''"
| "TaskStatus_String TaskCreated = ''CREATED''"
| "TaskStatus_String TaskRunning = ''RUNNING''"
| "TaskStatus_String TaskStopped = ''STOPPED''"


section \<open>Tasks and containers\<close>

text \<open>
  The structs \<^verbatim>\<open>apicontainer.Container\<close>, \<^verbatim>\<open>apicontainer.PortBinding\<close> and
  \<^verbatim>\<open>apitask.Task\<close> are declared outside the sources. A record field below holds what the
  getter of that name returns (\<^verbatim>\<open>KnownStatus\<close> for \<^verbatim>\<open>GetKnownStatus()\<close>,
  \<^verbatim>\<open>IsInternal\<close> for \<^verbatim>\<open>IsInternal()\<close>, \<^verbatim>\<open>HasPortRange\<close> for \<^verbatim>\<open>HasPortRange()\<close>, ...),
  so every such getter is a parameter of the model. A point in time is its distance from
  Go's zero \<^verbatim>\<open>time.Time\<close>: \<^verbatim>\<open>IsZero\<close> is equality with 0 and \<^verbatim>\<open>UTC()\<close> keeps the instant.
\<close>

type_synonym Time = int

record PortBinding =
  ContainerPort :: nat
  HostPort :: nat
  BindIP :: string
  Protocol :: string \<comment> \<open>what \<^verbatim>\<open>binding.Protocol.String()\<close> returns\<close>

datatype Condition = START | COMPLETE | SUCCESS | HEALTHY

record DependsOn =
  ContainerName :: string
  Condition :: Condition

datatype HealthStatus = HealthUnknown | Healthy | Unhealthy

record Container =
  Name :: string
  Image :: string
  DesiredStatus :: ContainerStatus
  KnownStatus :: ContainerStatus
  SentStatus :: ContainerStatus
  SteadyStateStatus :: ContainerStatus
  IsInternal :: bool
  DependsOn :: "DependsOn list"
  Health :: HealthStatus
  KnownExitCode :: "int option"
  ImageDigest :: string
  RuntimeID :: string
  KnownPortBindings :: "PortBinding list"
  ApplyingError :: "string option" \<comment> \<open>\<^verbatim>\<open>nil\<close>, or the error's \<^verbatim>\<open>Error()\<close> text\<close>
  HasPortRange :: bool
  ContainerPortSet :: "int set"
  ContainerPortRangeMap :: "(string \<times> string) list"

record Task =
  Arn :: string
  IsInternal :: bool
  DesiredStatus :: TaskStatus
  KnownStatus :: TaskStatus
  SentStatus :: TaskStatus
  LaunchType :: string
  CPU :: nat
  Memory :: nat
  Containers :: "Container list"
  IsServiceConnectEnabled :: bool
  IsNetworkModeBridge :: bool
  BridgeModePauseContainer :: "string \<Rightarrow> Container option"
    \<comment> \<open>\<^verbatim>\<open>GetBridgeModePauseContainerForTaskContainer\<close>, by the container's name;
        \<open>None\<close> when it returns an error\<close>
  PullStartedAt :: Time
  PullStoppedAt :: Time
  ExecutionStoppedAt :: Time

text \<open>
  Modelled from the spec: \<^verbatim>\<open>DigestResolved\<close> and \<^verbatim>\<open>HasAContainerWithResolvedDigest\<close> are
  methods of the absent structs. A container's digest is resolved when its image digest is
  populated (the integration tests check \<^verbatim>\<open>assert.NotEmpty(first.GetImageDigest())\<close>), and
  a task has one when "at least one container has a resolved image digest".
\<close>

definition DigestResolved :: "Container \<Rightarrow> bool" where
  "DigestResolved c = (Container.ImageDigest c \<noteq> [])"

definition HasAContainerWithResolvedDigest :: "Task \<Rightarrow> bool" where
  "HasAContainerWithResolvedDigest task = list_ex DigestResolved (Task.Containers task)"


section \<open>State changes (agent/api/statechange.go)\<close>

text \<open>
  A Go \<^verbatim>\<open>error\<close> is \<open>None\<close> for \<^verbatim>\<open>nil\<close>; \<^verbatim>\<open>ErrShouldNotSendEvent\<close> is the typed
  error of the file, \<open>Errorf\<close> every error built by \<^verbatim>\<open>errors.Errorf\<close> or
  \<^verbatim>\<open>fmt.Errorf\<close>. A function returning \<^verbatim>\<open>(T, error)\<close> returns the pair.
\<close>

datatype error = ErrShouldNotSendEvent string | Errorf string

text \<open>The type assertion \<^verbatim>\<open>err.(ErrShouldNotSendEvent)\<close> a caller makes on the error.\<close>

definition isErrShouldNotSendEvent :: "error option \<Rightarrow> bool" where
  "isErrShouldNotSendEvent err =
     (case err of Some (ErrShouldNotSendEvent resourceId) \<Rightarrow> True | _ \<Rightarrow> False)"

typedecl ENIAttachment
typedecl ManagedAgentStateChange

record ContainerStateChange =
  TaskArn :: string
  RuntimeID :: string
  ContainerName :: string
  Status :: ContainerStatus
  ImageDigest :: string
  Reason :: string
  ExitCode :: "int option"
  PortBindings :: "PortBinding list"
  Container :: "Container option"

record TaskStateChange =
  Attachment :: "ENIAttachment option"
  TaskARN :: string
  Status :: TaskStatus
  Reason :: string
  Containers :: "ContainerStateChange list"
  ManagedAgents :: "ManagedAgentStateChange list"
  PullStartedAt :: "Time option"
  PullStoppedAt :: "Time option"
  ExecutionStoppedAt :: "Time option"
  Task :: "Task option"

text \<open>The zero values \<^verbatim>\<open>var event ContainerStateChange\<close> and \<^verbatim>\<open>var event TaskStateChange\<close>.\<close>

definition emptyContainerStateChange :: ContainerStateChange where
  "emptyContainerStateChange =
     \<lparr> TaskArn = [], RuntimeID = [], ContainerName = [], Status = ContainerStatusNone,
       ImageDigest = [], Reason = [], ExitCode = None, PortBindings = [], Container = None \<rparr>"

definition emptyTaskStateChange :: TaskStateChange where
  "emptyTaskStateChange =
     \<lparr> Attachment = None, TaskARN = [], Status = TaskStatusNone, Reason = [],
       Containers = [], ManagedAgents = [], PullStartedAt = None, PullStoppedAt = None,
       ExecutionStoppedAt = None, Task = None \<rparr>"

definition SetTaskTimestamps :: "TaskStateChange \<Rightarrow> TaskStateChange" where
  "SetTaskTimestamps change =
     (case TaskStateChange.Task change of
        None \<Rightarrow> change
      | Some task \<Rightarrow>
          (let c1 = (if Task.PullStartedAt task \<noteq> 0
                     then change\<lparr>TaskStateChange.PullStartedAt := Some (Task.PullStartedAt task)\<rparr>
                     else change);
               c2 = (if Task.PullStoppedAt task \<noteq> 0
                     then c1\<lparr>TaskStateChange.PullStoppedAt := Some (Task.PullStoppedAt task)\<rparr>
                     else c1)
           in if Task.ExecutionStoppedAt task \<noteq> 0
              then c2\<lparr>TaskStateChange.ExecutionStoppedAt := Some (Task.ExecutionStoppedAt task)\<rparr>
              else c2))"

text \<open>
  \<^verbatim>\<open>NewTaskStateChangeEvent\<close>. The method \<^verbatim>\<open>BackendRecognized\<close> of the task status is not
  among the sources and is a parameter.
\<close>

definition NewTaskStateChangeEvent ::
  "(TaskStatus \<Rightarrow> bool) \<Rightarrow> Task \<Rightarrow> string \<Rightarrow> TaskStateChange \<times> error option" where
  "NewTaskStateChangeEvent BackendRecognized task reason =
     (let event = emptyTaskStateChange in
      if Task.IsInternal task then (event, Some (ErrShouldNotSendEvent (Arn task)))
      else
        let taskKnownStatus = Task.KnownStatus task in
        if taskKnownStatus \<noteq> TaskManifestPulled \<and> \<not> BackendRecognized taskKnownStatus
        then (event, Some (Errorf
               (''create task state change event api: status not recognized by ECS: ''
                 @ TaskStatus_String taskKnownStatus)))
        else if TaskStatus_ge (Task.SentStatus task) taskKnownStatus
        then (event, Some (Errorf
               (''create task state change event api: status [''
                 @ TaskStatus_String taskKnownStatus @ ''] already sent'')))
        else if taskKnownStatus = TaskManifestPulled \<and> \<not> HasAContainerWithResolvedDigest task
        then (event, Some (ErrShouldNotSendEvent
               (''create task state change event api: status ''
                 @ TaskStatus_String TaskManifestPulled
                 @ '' not eligible for backend reporting as no digests were resolved'')))
        else
          (SetTaskTimestamps
             \<lparr> Attachment = None, TaskARN = Arn task, Status = taskKnownStatus, Reason = reason,
               Containers = [], ManagedAgents = [], PullStartedAt = None, PullStoppedAt = None,
               ExecutionStoppedAt = None, Task = Some task \<rparr>,
           None))"

text \<open>
  \<^verbatim>\<open>containerStatusChangeStatus\<close>: a Go \<^verbatim>\<open>switch\<close> takes the first case that matches, and
  its first case is the steady-state status.
\<close>

definition containerStatusChangeStatus ::
  "ContainerStatus \<Rightarrow> ContainerStatus \<Rightarrow> ContainerStatus" where
  "containerStatusChangeStatus knownStatus steadyStateStatus =
     (if knownStatus = steadyStateStatus then ContainerRunning
      else if knownStatus = ContainerManifestPulled then ContainerManifestPulled
      else if knownStatus = ContainerStopped then ContainerStopped
      else ContainerStatusNone)"

definition newUncheckedContainerStateChangeEvent ::
  "Task \<Rightarrow> Container \<Rightarrow> string \<Rightarrow> ContainerStateChange \<times> error option" where
  "newUncheckedContainerStateChangeEvent task cont reason =
     (let event = emptyContainerStateChange in
      if Container.IsInternal cont then (event, Some (ErrShouldNotSendEvent (Name cont)))
      else
        let portBindings = KnownPortBindings cont;
            build = (\<lambda>pbs.
              (\<lparr> TaskArn = Arn task,
                 RuntimeID = Container.RuntimeID cont,
                 ContainerName = Name cont,
                 Status = containerStatusChangeStatus (Container.KnownStatus cont)
                            (SteadyStateStatus cont),
                 ImageDigest = Container.ImageDigest cont,
                 Reason = reason,
                 ExitCode = KnownExitCode cont,
                 PortBindings = pbs,
                 Container = Some cont \<rparr>, None))
        in
        if IsServiceConnectEnabled task \<and> IsNetworkModeBridge task then
          (case BridgeModePauseContainer task (Name cont) of
             None \<Rightarrow> (event, Some (Errorf
               (''error resolving pause container for bridge mode SC container: '' @ Name cont)))
           | Some pauseCont \<Rightarrow> build (KnownPortBindings pauseCont))
        else build portBindings)"

text \<open>
  \<^verbatim>\<open>NewContainerStateChangeEvent\<close>. The method \<^verbatim>\<open>ShouldReportToBackend\<close> of the container
  status is not among the sources and is a parameter. On an error of its own the Go function
  returns the event built so far next to the error.
\<close>

definition NewContainerStateChangeEvent ::
  "(ContainerStatus \<Rightarrow> ContainerStatus \<Rightarrow> bool) \<Rightarrow> Task \<Rightarrow> Container \<Rightarrow> string
     \<Rightarrow> ContainerStateChange \<times> error option" where
  "NewContainerStateChangeEvent ShouldReportToBackend task cont reason =
     (case newUncheckedContainerStateChangeEvent task cont reason of
        (event, Some err) \<Rightarrow> (event, Some err)
      | (event, None) \<Rightarrow>
          (let contKnownStatus = Container.KnownStatus cont in
           if contKnownStatus \<noteq> ContainerManifestPulled
              \<and> \<not> ShouldReportToBackend contKnownStatus (SteadyStateStatus cont)
           then (event, Some (ErrShouldNotSendEvent
                  (''create container state change event api: status not recognized by ECS: ''
                    @ ContainerStatus_String contKnownStatus)))
           else if contKnownStatus = ContainerManifestPulled \<and> \<not> DigestResolved cont
           then (event, Some (ErrShouldNotSendEvent
                  (''create container state change event api: no need to send ''
                    @ ContainerStatus_String ContainerManifestPulled
                    @ '' event as no resolved digests were found'')))
           else if ContainerStatus_ge (Container.SentStatus cont) contKnownStatus
           then (event, Some (ErrShouldNotSendEvent
                  (''create container state change event api: status [''
                    @ ContainerStatus_String contKnownStatus
                    @ ''] already sent for container '' @ Name cont @ '', task '' @ Arn task)))
           else if reason = [] \<and> ApplyingError cont \<noteq> None
           then (event\<lparr>ContainerStateChange.Reason := the (ApplyingError cont)\<rparr>, None)
           else (event, None)))"


text \<open>
  The payload types of the AWS SDK (\<^verbatim>\<open>types.NetworkBinding\<close>,
  \<^verbatim>\<open>types.ContainerStateChange\<close>): a pointer field is an option.
\<close>

record NetworkBinding =
  BindIP :: "string option"
  ContainerPort :: "int option"
  ContainerPortRange :: "string option"
  HostPort :: "int option"
  HostPortRange :: "string option"
  Protocol :: string

record types_ContainerStateChange =
  ContainerName :: "string option"
  ExitCode :: "int option"
  ImageDigest :: "string option"
  NetworkBindings :: "NetworkBinding list"
  Reason :: "string option"
  RuntimeId :: "string option"
  Status :: "string option"

record ProtocolBindIP =
  protocol :: string
  bindIP :: string

definition ecsMaxNetworkBindingsLength :: nat where
  "ecsMaxNetworkBindingsLength = 100"

text \<open>Go's conversion \<^verbatim>\<open>int32(x)\<close>: the low 32 bits, read as a signed number.\<close>

definition int32 :: "int \<Rightarrow> int" where
  "int32 x = sint (word_of_int x :: 32 word)"

text \<open>\<^verbatim>\<open>strconv.Itoa\<close> on a length, for the error message.\<close>

fun digits :: "nat \<Rightarrow> nat \<Rightarrow> string" where
  "digits 0 n = []"
| "digits (Suc fuel) n =
     (if n < 10 then [''0123456789'' ! n]
      else digits fuel (n div 10) @ [''0123456789'' ! (n mod 10)])"

definition Itoa :: "nat \<Rightarrow> string" where
  "Itoa n = digits (Suc n) n"

text \<open>
  \<^verbatim>\<open>getNetworkBindings\<close>. The first loop walks the port bindings of the change: a binding
  whose container port is in the container's port set yields a network binding, any other
  is filed under its host port. The second loop walks the container's port range map (an
  association list here; Go walks a map in no fixed order) and yields one network binding
  per filed protocol and bind address of the range's first host port.
  \<^verbatim>\<open>nat.ParsePortRangeToInt\<close> belongs to an external library and is a parameter: the
  function gives its first result. A state change without its container is a nil
  dereference in Go: the result is \<open>None\<close>.
\<close>

definition singularBinding :: "PortBinding \<Rightarrow> NetworkBinding" where
  "singularBinding binding =
     \<lparr> BindIP = Some (PortBinding.BindIP binding),
       ContainerPort = Some (int32 (int (PortBinding.ContainerPort binding))),
       ContainerPortRange = None,
       HostPort = Some (int32 (int (PortBinding.HostPort binding))),
       HostPortRange = None,
       Protocol = PortBinding.Protocol binding \<rparr>"

definition rangeBinding :: "string \<Rightarrow> string \<Rightarrow> ProtocolBindIP \<Rightarrow> NetworkBinding" where
  "rangeBinding containerPortRange hostPortRange v =
     \<lparr> BindIP = Some (bindIP v),
       ContainerPort = None,
       ContainerPortRange = Some containerPortRange,
       HostPort = None,
       HostPortRange = Some hostPortRange,
       Protocol = protocol v \<rparr>"

fun portBindingsLoop ::
  "int set \<Rightarrow> PortBinding list \<Rightarrow> NetworkBinding list \<times> (int \<Rightarrow> ProtocolBindIP list option)
     \<Rightarrow> NetworkBinding list \<times> (int \<Rightarrow> ProtocolBindIP list option)" where
  "portBindingsLoop containerPortSet [] acc = acc"
| "portBindingsLoop containerPortSet (binding # rest) (networkBindings, hostPortMap) =
     (let containerPort = int32 (int (PortBinding.ContainerPort binding)) in
      if containerPort \<in> containerPortSet
      then portBindingsLoop containerPortSet rest
             (networkBindings @ [singularBinding binding], hostPortMap)
      else
        let hostPort = int (PortBinding.HostPort binding);
            filed = (case hostPortMap hostPort of None \<Rightarrow> [] | Some l \<Rightarrow> l)
        in portBindingsLoop containerPortSet rest
             (networkBindings,
              hostPortMap(hostPort \<mapsto> filed @
                 [\<lparr> protocol = PortBinding.Protocol binding,
                    bindIP = PortBinding.BindIP binding \<rparr>])))"

fun portRangesLoop ::
  "(string \<Rightarrow> int) \<Rightarrow> (int \<Rightarrow> ProtocolBindIP list option) \<Rightarrow> (string \<times> string) list
     \<Rightarrow> NetworkBinding list \<Rightarrow> NetworkBinding list" where
  "portRangesLoop ParsePortRangeToInt hostPortMap [] networkBindings = networkBindings"
| "portRangesLoop ParsePortRangeToInt hostPortMap ((containerPortRange, hostPortRange) # rest)
     networkBindings =
     (case hostPortMap (ParsePortRangeToInt hostPortRange) of
        Some val \<Rightarrow>
          portRangesLoop ParsePortRangeToInt hostPortMap rest
            (networkBindings @ map (rangeBinding containerPortRange hostPortRange) val)
      | None \<Rightarrow> portRangesLoop ParsePortRangeToInt hostPortMap rest networkBindings)"

definition getNetworkBindings ::
  "(string \<Rightarrow> int) \<Rightarrow> ContainerStateChange \<Rightarrow> NetworkBinding list option" where
  "getNetworkBindings ParsePortRangeToInt change =
     (case ContainerStateChange.Container change of
        None \<Rightarrow> None
      | Some cont \<Rightarrow>
          (let (networkBindings, hostPortMap) =
                 portBindingsLoop (ContainerPortSet cont) (PortBindings change) ([], Map.empty)
           in Some (portRangesLoop ParsePortRangeToInt hostPortMap
                      (ContainerPortRangeMap cont) networkBindings)))"

text \<open>
  \<^verbatim>\<open>buildContainerStateChangePayload\<close>. \<^verbatim>\<open>BackendStatusString\<close> is a method of the
  container status and a parameter. The outer option is \<open>None\<close> when Go panics on the nil
  container of the change; otherwise the pair is the returned pointer and error.
\<close>

definition aws_String :: "string \<Rightarrow> string option" where
  "aws_String s = (if s \<noteq> [] then Some s else None)"

definition buildContainerStateChangePayload ::
  "(ContainerStatus \<Rightarrow> string) \<Rightarrow> (string \<Rightarrow> int) \<Rightarrow> ContainerStateChange
     \<Rightarrow> (types_ContainerStateChange option \<times> error option) option" where
  "buildContainerStateChangePayload BackendStatusString ParsePortRangeToInt change =
     (if ContainerStateChange.ContainerName change = []
      then Some (None, Some (Errorf ''container state change has no container name''))
      else
        let statechange =
              \<lparr> ContainerName = Some (ContainerStateChange.ContainerName change),
                ExitCode = None,
                ImageDigest = aws_String (ContainerStateChange.ImageDigest change),
                NetworkBindings = [],
                Reason = aws_String (ContainerStateChange.Reason change),
                RuntimeId = aws_String (ContainerStateChange.RuntimeID change),
                Status = None \<rparr>;
            stat = ContainerStateChange.Status change
        in
        if stat \<noteq> ContainerManifestPulled \<and> stat \<noteq> ContainerStopped \<and> stat \<noteq> ContainerRunning
        then Some (None, None)
        else
          let stat' = (if ContainerStatus_String stat = ''DEAD'' then ContainerStopped else stat);
              withStatus = statechange\<lparr>types_ContainerStateChange.Status :=
                                         Some (BackendStatusString stat')\<rparr>;
              withExit = (case ContainerStateChange.ExitCode change of
                            Some exitCode \<Rightarrow>
                              withStatus\<lparr>types_ContainerStateChange.ExitCode :=
                                           Some (int32 exitCode)\<rparr>
                          | None \<Rightarrow> withStatus)
          in
          (case getNetworkBindings ParsePortRangeToInt change of
             None \<Rightarrow> None
           | Some networkBindings \<Rightarrow>
               (case ContainerStateChange.Container change of
                  None \<Rightarrow> None
                | Some cont \<Rightarrow>
                    if HasPortRange cont \<and> length networkBindings > ecsMaxNetworkBindingsLength
                    then Some (None, Some (Errorf
                           (''no. of network bindings '' @ Itoa (length networkBindings)
                             @ '' is more than the maximum supported no. ''
                             @ Itoa ecsMaxNetworkBindingsLength
                             @ '', container: '' @ ContainerStateChange.ContainerName change
                             @ '' task: '' @ ContainerStateChange.TaskArn change)))
                    else Some (Some (withExit\<lparr>NetworkBindings := networkBindings\<rparr>), None))))"


section \<open>Endpoints (ecs-agent/utils/utils.go)\<close>

definition httpsPrefix :: string where
  "httpsPrefix = ''https://''"

text \<open>
  \<^verbatim>\<open>schemeRegex.MatchString\<close> for the pattern \<^verbatim>\<open>^(http|https)://\<close>: the text starts
  with one of the two alternatives followed by \<^verbatim>\<open>://\<close>.
\<close>

definition schemeRegex_MatchString :: "string \<Rightarrow> bool" where
  "schemeRegex_MatchString s =
     list_ex (\<lambda>alt. prefix (alt @ ''://'') s) [''http'', ''https'']"

definition AddScheme :: "string \<Rightarrow> string" where
  "AddScheme endpoint =
     (if endpoint = [] then endpoint
      else if schemeRegex_MatchString endpoint then endpoint
      else httpsPrefix @ endpoint)"


section \<open>Host resource ledger\<close>

text \<open>
  Modelled from the spec: the host resource manager is not among the sources (only the
  integration tests that drive it are). The ledger holds the total capacity and, per task
  ARN, the consumed amounts: \<^verbatim>\<open>TryConsume\<close> "checks whether requirements fit within
  remaining capacity; if so, records consumption and returns true; otherwise returns false
  and records nothing"; it "succeeds at most once per task without an intervening
  Release", so a task that is already consuming is refused; \<^verbatim>\<open>Release\<close> "idempotently
  returns the task's consumed resources to the pool"; tasks "whose launch type is exempt
  bypass accounting entirely". Which launch types are exempt the spec does not say: the
  ledger carries them as a parameter, the field \<open>exempt\<close>.
\<close>

record Resources =
  cpu :: nat
  memory :: nat
  ports :: "nat list"

record ResourceLedger =
  capacity :: Resources
  exempt :: "string \<Rightarrow> bool"
  consumed :: "(string \<times> Resources) list"

definition taskRequirements :: "Task \<Rightarrow> Resources" where
  "taskRequirements t =
     \<lparr> cpu = CPU t, memory = Memory t,
       ports = map PortBinding.HostPort (concat (map KnownPortBindings (Task.Containers t))) \<rparr>"

definition IsConsuming :: "ResourceLedger \<Rightarrow> string \<Rightarrow> bool" where
  "IsConsuming l taskID = list_ex (\<lambda>entry. fst entry = taskID) (consumed l)"

definition fits :: "ResourceLedger \<Rightarrow> Resources \<Rightarrow> bool" where
  "fits l req =
     (sum_list (map (\<lambda>entry. cpu (snd entry)) (consumed l)) + cpu req \<le> cpu (capacity l)
      \<and> sum_list (map (\<lambda>entry. memory (snd entry)) (consumed l)) + memory req
           \<le> memory (capacity l)
      \<and> list_all (\<lambda>p. p \<notin> set (ports (capacity l))
                      \<and> p \<notin> set (concat (map (\<lambda>entry. ports (snd entry)) (consumed l))))
           (ports req))"

definition TryConsume :: "ResourceLedger \<Rightarrow> Task \<Rightarrow> ResourceLedger \<times> bool" where
  "TryConsume l t =
     (if exempt l (LaunchType t) then (l, True)
      else if IsConsuming l (Arn t) then (l, False)
      else if fits l (taskRequirements t)
      then (l\<lparr>consumed := consumed l @ [(Arn t, taskRequirements t)]\<rparr>, True)
      else (l, False))"

definition Release :: "ResourceLedger \<Rightarrow> string \<Rightarrow> ResourceLedger" where
  "Release l taskID = l\<lparr>consumed := filter (\<lambda>entry. fst entry \<noteq> taskID) (consumed l)\<rparr>"

text \<open>A run of ledger operations, for statements about every moment of a task's life.\<close>

datatype LedgerOp = DoTryConsume Task | DoRelease string

fun applyLedgerOp :: "ResourceLedger \<Rightarrow> LedgerOp \<Rightarrow> ResourceLedger" where
  "applyLedgerOp l (DoTryConsume t) = fst (TryConsume l t)"
| "applyLedgerOp l (DoRelease taskID) = Release l taskID"

fun concernsOnlyExempt :: "(string \<Rightarrow> bool) \<Rightarrow> string \<Rightarrow> LedgerOp \<Rightarrow> bool" where
  "concernsOnlyExempt exemptTypes taskID (DoTryConsume t) =
     (Arn t \<noteq> taskID \<or> exemptTypes (LaunchType t))"
| "concernsOnlyExempt exemptTypes taskID (DoRelease other) = True"


section \<open>Waiting queue\<close>

text \<open>
  Modelled from the spec: the waiting queue is not among the sources. An entry is "(task
  reference, enqueue time)"; \<^verbatim>\<open>Enqueue\<close> "appends to the back", \<^verbatim>\<open>PeekFront\<close> inspects
  "without removing", \<^verbatim>\<open>Dequeue\<close> "removes and returns the front entry", and
  \<^verbatim>\<open>Remove\<close> "removes a specific task if present anywhere in the queue, preserving
  relative order of remaining entries".
\<close>

record QueueEntry =
  entryTask :: Task
  enqueueTime :: nat

definition Enqueue :: "QueueEntry list \<Rightarrow> Task \<Rightarrow> nat \<Rightarrow> QueueEntry list" where
  "Enqueue q t now = q @ [\<lparr> entryTask = t, enqueueTime = now \<rparr>]"


definition Dequeue :: "QueueEntry list \<Rightarrow> Task option \<times> QueueEntry list" where
  "Dequeue q = (case q of [] \<Rightarrow> (None, []) | entry # rest \<Rightarrow> (Some (entryTask entry), rest))"

definition Remove :: "QueueEntry list \<Rightarrow> string \<Rightarrow> QueueEntry list \<times> bool" where
  "Remove q taskID =
     (filter (\<lambda>entry. Arn (entryTask entry) \<noteq> taskID) q,
      list_ex (\<lambda>entry. Arn (entryTask entry) = taskID) q)"


section \<open>Dependency graph and container state machine\<close>

text \<open>
  Modelled from the spec: the dependency graph is not among the sources. A container may
  transition iff every dependency it declares is satisfied by the known status of the
  container it names (START: created or further; COMPLETE: stopped; SUCCESS: stopped with
  exit code 0; HEALTHY: health check healthy); a dependency on a container that the task
  does not have is a configuration error and satisfied by nothing; and "reaching
  MANIFEST_PULLED is not gated by dependency ordering".
\<close>

definition dependencySatisfied :: "Container list \<Rightarrow> DependsOn \<Rightarrow> bool" where
  "dependencySatisfied allContainers dep =
     (case find (\<lambda>c. Name c = DependsOn.ContainerName dep) allContainers of
        None \<Rightarrow> False
      | Some target \<Rightarrow>
          (case Condition dep of
             START \<Rightarrow> ContainerStatus_ge (Container.KnownStatus target) ContainerCreated
           | COMPLETE \<Rightarrow> Container.KnownStatus target = ContainerStopped
           | SUCCESS \<Rightarrow> Container.KnownStatus target = ContainerStopped
                          \<and> KnownExitCode target = Some 0
           | HEALTHY \<Rightarrow> Health target = Healthy))"

definition CanTransition :: "Container \<Rightarrow> ContainerStatus \<Rightarrow> Container list \<Rightarrow> bool" where
  "CanTransition cont targetStatus allContainers =
     (if targetStatus = ContainerManifestPulled then True
      else list_all (dependencySatisfied allContainers) (Container.DependsOn cont))"

text \<open>
  Modelled from the spec: the container state machine and the runtime driver are not among
  the sources. The driver is the interface of the spec; \<^verbatim>\<open>Progress\<close> "invokes the
  appropriate external runtime operation (pull manifest / pull image / create / start /
  stop) for the next status step toward targetStatus (never skips steps), then updates the
  container's known status and, on failure, its error/reason field"; a target "at or below
  the current known status is a no-op"; on a failed step "the container's known status
  does not advance". RESOURCES_PROVISIONED is reached through the resource provisioner,
  which the spec leaves out: the next runtime step from RUNNING and from
  RESOURCES_PROVISIONED is the stop.
\<close>

datatype DriverError = Timeout | Transient string | Terminal string

record RuntimeDriver =
  PullImageManifest :: "string \<Rightarrow> DriverError + string"
  PullImage :: "string \<Rightarrow> string \<Rightarrow> DriverError option"
  CreateContainer :: "Container \<Rightarrow> DriverError + string"
  StartContainer :: "string \<Rightarrow> DriverError option"
  StopContainer :: "string \<Rightarrow> DriverError + int"

record ProgressResult =
  newKnownStatus :: ContainerStatus
  stepError :: "DriverError option"
  exitCode :: "int option"
  retryable :: bool

fun nextStatus :: "ContainerStatus \<Rightarrow> ContainerStatus" where
  "nextStatus ContainerStatusNone = ContainerManifestPulled"
| "nextStatus ContainerManifestPulled = ContainerPulled"
| "nextStatus ContainerPulled = ContainerCreated"
| "nextStatus ContainerCreated = ContainerRunning"
| "nextStatus ContainerRunning = ContainerStopped"
| "nextStatus ContainerResourcesProvisioned = ContainerStopped"
| "nextStatus ContainerStopped = ContainerStopped"

fun DriverError_String :: "DriverError \<Rightarrow> string" where
  "DriverError_String Timeout = ''Timeout''"
| "DriverError_String (Transient msg) = msg"
| "DriverError_String (Terminal msg) = msg"

fun isRetryable :: "DriverError \<Rightarrow> bool" where
  "isRetryable Timeout = True"
| "isRetryable (Transient msg) = True"
| "isRetryable (Terminal msg) = False"

definition stepFailed :: "Container \<Rightarrow> DriverError \<Rightarrow> Container \<times> ProgressResult" where
  "stepFailed cont e =
     (cont\<lparr>ApplyingError := Some (DriverError_String e)\<rparr>,
      \<lparr> newKnownStatus = Container.KnownStatus cont, stepError = Some e, exitCode = None,
        retryable = isRetryable e \<rparr>)"

definition stepDone :: "Container \<Rightarrow> Container \<times> ProgressResult" where
  "stepDone cont =
     (cont,
      \<lparr> newKnownStatus = Container.KnownStatus cont, stepError = None,
        exitCode = KnownExitCode cont, retryable = False \<rparr>)"

definition Progress ::
  "RuntimeDriver \<Rightarrow> Container \<Rightarrow> ContainerStatus \<Rightarrow> Container \<times> ProgressResult" where
  "Progress driver cont targetStatus =
     (if ContainerStatus_ge (Container.KnownStatus cont) targetStatus
      then (cont,
            \<lparr> newKnownStatus = Container.KnownStatus cont, stepError = None, exitCode = None,
              retryable = False \<rparr>)
      else
        (case nextStatus (Container.KnownStatus cont) of
           ContainerManifestPulled \<Rightarrow>
             (case PullImageManifest driver (Image cont) of
                Inl e \<Rightarrow> stepFailed cont e
              | Inr digest \<Rightarrow>
                  stepDone (cont\<lparr>Container.KnownStatus := ContainerManifestPulled,
                                 Container.ImageDigest := digest\<rparr>))
         | ContainerPulled \<Rightarrow>
             (case PullImage driver (Image cont) (Container.ImageDigest cont) of
                Some e \<Rightarrow> stepFailed cont e
              | None \<Rightarrow> stepDone (cont\<lparr>Container.KnownStatus := ContainerPulled\<rparr>))
         | ContainerCreated \<Rightarrow>
             (case CreateContainer driver cont of
                Inl e \<Rightarrow> stepFailed cont e
              | Inr runtimeID \<Rightarrow>
                  stepDone (cont\<lparr>Container.KnownStatus := ContainerCreated,
                                 Container.RuntimeID := runtimeID\<rparr>))
         | ContainerRunning \<Rightarrow>
             (case StartContainer driver (Container.RuntimeID cont) of
                Some e \<Rightarrow> stepFailed cont e
              | None \<Rightarrow> stepDone (cont\<lparr>Container.KnownStatus := ContainerRunning\<rparr>))
         | _ \<Rightarrow>
             (case StopContainer driver (Container.RuntimeID cont) of
                Inl e \<Rightarrow> stepFailed cont e
              | Inr code \<Rightarrow>
                  stepDone (cont\<lparr>Container.KnownStatus := ContainerStopped,
                                 KnownExitCode := Some code\<rparr>))))"

text \<open>
  Modelled from the spec: one pass of the task's control loop over one container. "On each
  relevant event recompute for every container in the task whether CanTransition holds for
  its current desired step, and if so invoke Progress."
\<close>

definition controlLoopPass :: "RuntimeDriver \<Rightarrow> Container list \<Rightarrow> Container \<Rightarrow> Container" where
  "controlLoopPass driver allContainers cont =
     (if ContainerStatus_ge (Container.KnownStatus cont) (Container.DesiredStatus cont) then cont
      else if CanTransition cont (nextStatus (Container.KnownStatus cont)) allContainers
      then fst (Progress driver cont (Container.DesiredStatus cont))
      else cont)"


section \<open>Task engine\<close>

text \<open>
  Modelled from the spec: how the two status types classify a status for the backend is
  declared with the enumerations. The task statuses reported externally are
  MANIFEST_PULLED, RUNNING and STOPPED, and \<^verbatim>\<open>NewTaskStateChangeEvent\<close> admits
  MANIFEST_PULLED by itself; a container status is reported when it is the steady state or
  STOPPED (the statuses \<^verbatim>\<open>buildContainerStateChangePayload\<close> lets through, next to
  MANIFEST_PULLED).
\<close>

definition TaskStatus_BackendRecognized :: "TaskStatus \<Rightarrow> bool" where
  "TaskStatus_BackendRecognized s = (s = TaskRunning \<or> s = TaskStopped)"

definition ContainerStatus_ShouldReportToBackend ::
  "ContainerStatus \<Rightarrow> ContainerStatus \<Rightarrow> bool" where
  "ContainerStatus_ShouldReportToBackend s steadyStateStatus =
     (s = steadyStateStatus \<or> s = ContainerStopped)"

text \<open>
  Modelled from the spec: the task engine is not among the sources. It owns the ledger,
  the waiting queue, the registry of managed tasks and the stream of state-change events.
  \<^verbatim>\<open>AddTask\<close>: a task whose ARN is managed is updated; a task that waits in the queue and
  is now to be stopped is removed from the queue and its STOPPED events are synthesized at
  once; a new task is started when \<^verbatim>\<open>TryConsume\<close> succeeds and enqueued otherwise. When a
  task's resources are released the engine admits the front of the queue, "repeating while
  admission succeeds". An event is put on the stream when its constructor returns no error.
\<close>

datatype Event = TaskEvent TaskStateChange | ContainerEvent ContainerStateChange

record Engine =
  ledger :: ResourceLedger
  waitingQueue :: "QueueEntry list"
  managedTasks :: "Task list"
  stateChangeEvents :: "Event list"
  clock :: nat

definition newEngine :: "(string \<Rightarrow> bool) \<Rightarrow> Resources \<Rightarrow> Engine" where
  "newEngine exemptTypes hostResources =
     \<lparr> ledger = \<lparr> capacity = hostResources, exempt = exemptTypes, consumed = [] \<rparr>, waitingQueue = [], managedTasks = [],
       stateChangeEvents = [], clock = 0 \<rparr>"

definition isManaged :: "Engine \<Rightarrow> string \<Rightarrow> bool" where
  "isManaged e taskID = list_ex (\<lambda>t. Arn t = taskID) (managedTasks e)"

definition isQueued :: "Engine \<Rightarrow> string \<Rightarrow> bool" where
  "isQueued e taskID = snd (Remove (waitingQueue e) taskID)"

definition emitContainerEvent :: "Task \<Rightarrow> Event list \<Rightarrow> Container \<Rightarrow> Event list" where
  "emitContainerEvent t evs cont =
     (case NewContainerStateChangeEvent ContainerStatus_ShouldReportToBackend t cont [] of
        (event, None) \<Rightarrow> evs @ [ContainerEvent event]
      | (event, Some err) \<Rightarrow> evs)"

definition emitTaskEvent :: "Task \<Rightarrow> Event list \<Rightarrow> Event list" where
  "emitTaskEvent t evs =
     (case NewTaskStateChangeEvent TaskStatus_BackendRecognized t [] of
        (event, None) \<Rightarrow> evs @ [TaskEvent event]
      | (event, Some err) \<Rightarrow> evs)"

definition markStopped :: "Task \<Rightarrow> Task" where
  "markStopped t =
     t\<lparr> Task.DesiredStatus := TaskStopped, Task.KnownStatus := TaskStopped,
        Task.Containers :=
          map (\<lambda>c. c\<lparr>Container.DesiredStatus := ContainerStopped,
                      Container.KnownStatus := ContainerStopped\<rparr>) (Task.Containers t) \<rparr>"

definition stoppedEvents :: "Task \<Rightarrow> Event list" where
  "stoppedEvents t =
     emitTaskEvent (markStopped t)
       (foldl (emitContainerEvent (markStopped t)) [] (Task.Containers (markStopped t)))"

definition stopQueuedTask :: "Engine \<Rightarrow> string \<Rightarrow> Engine" where
  "stopQueuedTask e taskID =
     (case find (\<lambda>entry. Arn (entryTask entry) = taskID) (waitingQueue e) of
        None \<Rightarrow> e
      | Some entry \<Rightarrow>
          e\<lparr> waitingQueue := fst (Remove (waitingQueue e) taskID),
             stateChangeEvents := stateChangeEvents e @ stoppedEvents (entryTask entry) \<rparr>)"

definition upsertTask :: "Engine \<Rightarrow> Task \<Rightarrow> Engine" where
  "upsertTask e t =
     e\<lparr> managedTasks :=
          map (\<lambda>m. if Arn m = Arn t then m\<lparr>Task.DesiredStatus := Task.DesiredStatus t\<rparr> else m)
            (managedTasks e) \<rparr>"

definition AddTask :: "Engine \<Rightarrow> Task \<Rightarrow> Engine" where
  "AddTask e t =
     (if isManaged e (Arn t) then upsertTask e t
      else if isQueued e (Arn t)
      then (if Task.DesiredStatus t = TaskStopped then stopQueuedTask e (Arn t) else e)
      else
        (case TryConsume (ledger e) t of
           (l, True) \<Rightarrow> e\<lparr> ledger := l, managedTasks := managedTasks e @ [t] \<rparr>
         | (l, False) \<Rightarrow>
             e\<lparr> waitingQueue := Enqueue (waitingQueue e) t (clock e),
                clock := Suc (clock e) \<rparr>))"

fun admitWaiting ::
  "ResourceLedger \<Rightarrow> QueueEntry list \<Rightarrow> ResourceLedger \<times> Task list \<times> QueueEntry list" where
  "admitWaiting l [] = (l, [], [])"
| "admitWaiting l (entry # rest) =
     (case TryConsume l (entryTask entry) of
        (l', True) \<Rightarrow>
          (case admitWaiting l' rest of
             (l'', admitted, waiting) \<Rightarrow> (l'', entryTask entry # admitted, waiting))
      | (l', False) \<Rightarrow> (l, [], entry # rest))"

definition CleanupTask :: "Engine \<Rightarrow> string \<Rightarrow> Engine" where
  "CleanupTask e taskID =
     (case admitWaiting (Release (ledger e) taskID) (waitingQueue e) of
        (l, admitted, waiting) \<Rightarrow>
          e\<lparr> ledger := l,
             waitingQueue := waiting,
             managedTasks := filter (\<lambda>t. Arn t \<noteq> taskID) (managedTasks e) @ admitted \<rparr>)"

text \<open>
  The states the engine can be in: it starts empty, tasks are added and cleaned up, and the
  control loops of the managed tasks change those tasks (never their ARN) and put events
  on the stream.
\<close>

inductive reachable :: "Engine \<Rightarrow> bool" where
  reachable_new: "reachable (newEngine exemptTypes hostResources)"
| reachable_AddTask: "reachable e \<Longrightarrow> reachable (AddTask e t)"
| reachable_CleanupTask: "reachable e \<Longrightarrow> reachable (CleanupTask e taskID)"
| reachable_loop:
    "reachable e \<Longrightarrow> map Arn changed = map Arn (managedTasks e) \<Longrightarrow>
     reachable (e\<lparr> managedTasks := changed,
                   stateChangeEvents := stateChangeEvents e @ emitted \<rparr>)"


text \<open>
  What holds of every reachable state: the queue is in strictly increasing order of enqueue
  time, every entry was enqueued before now, no task waits twice, no waiting task is
  managed, and only managed tasks consume.
\<close>

definition queuedArns :: "Engine \<Rightarrow> string set" where
  "queuedArns e = set (map (\<lambda>entry. Arn (entryTask entry)) (waitingQueue e))"

definition managedArns :: "Engine \<Rightarrow> string set" where
  "managedArns e = set (map Arn (managedTasks e))"

definition consumingArns :: "ResourceLedger \<Rightarrow> string set" where
  "consumingArns l = set (map fst (consumed l))"

definition engineInvariant :: "Engine \<Rightarrow> bool" where
  "engineInvariant e =
     (sorted_wrt (<) (map enqueueTime (waitingQueue e))
      \<and> list_all (\<lambda>entry. enqueueTime entry < clock e) (waitingQueue e)
      \<and> distinct (map (\<lambda>entry. Arn (entryTask entry)) (waitingQueue e))
      \<and> queuedArns e \<inter> managedArns e = {}
      \<and> consumingArns (ledger e) \<subseteq> managedArns e)"


section \<open>Sample inputs\<close>

text \<open>
  The inputs of the worked examples, after the fixtures of the integration tests: a task
  \<^verbatim>\<open>test-arn\<close> of 512 MB with one container \<^verbatim>\<open>A\<close>, on a host of 1024 MB.
\<close>

definition sampleContainer :: Container where
  "sampleContainer =
     \<lparr> Name = ''A'', Image = ''busybox:latest'',
       Container.DesiredStatus = ContainerRunning,
       Container.KnownStatus = ContainerStatusNone,
       Container.SentStatus = ContainerStatusNone,
       SteadyStateStatus = ContainerRunning,
       Container.IsInternal = False, DependsOn = [], Health = HealthUnknown,
       KnownExitCode = None, Container.ImageDigest = [], Container.RuntimeID = [],
       KnownPortBindings = [], ApplyingError = None, HasPortRange = False,
       ContainerPortSet = {}, ContainerPortRangeMap = [] \<rparr>"

definition sampleTask :: Task where
  "sampleTask =
     \<lparr> Arn = ''test-arn'', Task.IsInternal = False, Task.DesiredStatus = TaskRunning,
       Task.KnownStatus = TaskStatusNone, Task.SentStatus = TaskStatusNone,
       LaunchType = ''EC2'', CPU = 0, Memory = 512, Task.Containers = [sampleContainer],
       IsServiceConnectEnabled = False, IsNetworkModeBridge = False,
       BridgeModePauseContainer = (\<lambda>name. None),
       Task.PullStartedAt = 0, Task.PullStoppedAt = 0, Task.ExecutionStoppedAt = 0 \<rparr>"

definition alreadySentTask :: Task where
  "alreadySentTask =
     sampleTask\<lparr>Task.KnownStatus := TaskManifestPulled, Task.SentStatus := TaskManifestPulled\<rparr>"

text \<open>
  The launch types \<^verbatim>\<open>TestHostResourceManagerLaunchTypeBehavior\<close> finds unaccounted:
  \<^verbatim>\<open>FARGATE\<close> alone, of the five it tries.
\<close>

definition testExemptLaunchType :: "string \<Rightarrow> bool" where
  "testExemptLaunchType launchType = (launchType = ''FARGATE'')"

definition alreadySentContainer :: Container where
  "alreadySentContainer =
     sampleContainer\<lparr>Container.KnownStatus := ContainerRunning,
                     Container.SentStatus := ContainerRunning\<rparr>"

definition testHostResources :: Resources where
  "testHostResources = \<lparr> cpu = 2048, memory = 1024, ports = [22, 2375, 2376, 51678] \<rparr>"


text \<open>
  A container that asked for a port range and got 101 host ports picked one by one, so that
  each of its container ports 8000 to 8100 is in its port set; and stand-ins for the two
  functions \<^verbatim>\<open>buildContainerStateChangePayload\<close> takes from elsewhere.
\<close>

definition sampleBackendStatusString :: "ContainerStatus \<Rightarrow> string" where
  "sampleBackendStatusString s =
     (if s = ContainerRunning then ''RUNNING''
      else if s = ContainerStopped then ''STOPPED''
      else if s = ContainerManifestPulled then ''MANIFEST_PULLED''
      else ''PENDING'')"

definition sampleParsePortRangeToInt :: "string \<Rightarrow> int" where
  "sampleParsePortRangeToInt hostPortRange = 0"

definition samplePortBinding :: "nat \<Rightarrow> PortBinding" where
  "samplePortBinding i =
     \<lparr> PortBinding.ContainerPort = 8000 + i, PortBinding.HostPort = 32768 + i,
       PortBinding.BindIP = ''0.0.0.0'', PortBinding.Protocol = ''tcp'' \<rparr>"

definition portRangeContainer :: Container where
  "portRangeContainer =
     sampleContainer\<lparr> Container.KnownStatus := ContainerCreated, HasPortRange := True,
                      ContainerPortSet := {8000..8100} \<rparr>"

definition manyBindingsChange :: "ContainerStatus \<Rightarrow> ContainerStateChange" where
  "manyBindingsChange stat =
     \<lparr> TaskArn = ''test-arn'', ContainerStateChange.RuntimeID = ''runtime-id'',
       ContainerStateChange.ContainerName = ''A'', ContainerStateChange.Status = stat,
       ContainerStateChange.ImageDigest = [], ContainerStateChange.Reason = [],
       ContainerStateChange.ExitCode = None,
       PortBindings = map samplePortBinding [0..<101], Container = Some portRangeContainer \<rparr>"


text \<open>
  The task of \<^verbatim>\<open>TestHostResourceManagerLaunchTypeBehavior\<close> (768 MB), under the launch
  type the test finds unaccounted.
\<close>

definition fargateTask :: Task where
  "fargateTask = sampleTask\<lparr>Arn := ''IntegTaskArn'', LaunchType := ''FARGATE'', Memory := 768\<rparr>"

text \<open>
  The task of \<^verbatim>\<open>TestManifestPulledDoesNotDependOnContainerOrdering\<close>: container
  \<^verbatim>\<open>second\<close> depends on the completion of \<^verbatim>\<open>first\<close>, which keeps running; and a
  runtime on which every operation succeeds.
\<close>

definition firstContainer :: Container where
  "firstContainer =
     sampleContainer\<lparr> Name := ''first'', Container.KnownStatus := ContainerRunning,
                      Container.SentStatus := ContainerRunning,
                      Container.ImageDigest := ''sha256:1f'' \<rparr>"

definition secondContainer :: Container where
  "secondContainer =
     sampleContainer\<lparr> Name := ''second'',
        DependsOn := [\<lparr> DependsOn.ContainerName = ''first'', Condition = COMPLETE \<rparr>] \<rparr>"

definition orderedTask :: Task where
  "orderedTask = sampleTask\<lparr> Task.Containers := [firstContainer, secondContainer] \<rparr>"

definition sampleDriver :: RuntimeDriver where
  "sampleDriver =
     \<lparr> PullImageManifest = (\<lambda>image. Inr ''sha256:1f''),
       PullImage = (\<lambda>image digest. None),
       CreateContainer = (\<lambda>cont. Inr (''docker-'' @ Name cont)),
       StartContainer = (\<lambda>runtimeID. None),
       StopContainer = (\<lambda>runtimeID. Inr 0) \<rparr>"




text \<open>
  The tasks of \<^verbatim>\<open>TestHostResourceManagerStopTaskNotBlockWaitingTasks\<close>, 768 MB each: the
  first runs, the second waits, and a stop arrives for the second.
\<close>

definition runningTask :: Task where
  "runningTask = sampleTask\<lparr>Arn := ''IntegTaskArn-0'', Memory := 768\<rparr>"

definition waitingTask :: Task where
  "waitingTask = sampleTask\<lparr>Arn := ''IntegTaskArn-1'', Memory := 768\<rparr>"

definition stopWaitingTask :: Task where
  "stopWaitingTask =
     sampleTask\<lparr>Arn := ''IntegTaskArn-1'', Task.DesiredStatus := TaskStopped,
                 Task.Containers := []\<rparr>"

definition oneWaiting :: Engine where
  "oneWaiting = AddTask (AddTask (newEngine testExemptLaunchType testHostResources) runningTask) waitingTask"


section \<open>Results on the state-change constructors\<close>

text \<open>
  C8: the status reported for a container is one of NONE, MANIFEST_PULLED, RUNNING and
  STOPPED. Reading the cases in the order of the switch, for every known status and every
  steady-state status: the result is RUNNING when the two are equal; otherwise it is
  MANIFEST_PULLED when the known status is MANIFEST_PULLED, STOPPED when it is STOPPED, and
  NONE in every other case, so that PULLED and CREATED, when they are not the steady state,
  map to NONE.
\<close>

theorem containerStatusChangeStatus_collapses:
  "containerStatusChangeStatus known steady
     \<in> {ContainerStatusNone, ContainerManifestPulled, ContainerRunning, ContainerStopped}
   \<and> (known = steady \<longrightarrow> containerStatusChangeStatus known steady = ContainerRunning)
   \<and> (known \<noteq> steady \<and> known = ContainerManifestPulled
        \<longrightarrow> containerStatusChangeStatus known steady = ContainerManifestPulled)
   \<and> (known \<noteq> steady \<and> known = ContainerStopped
        \<longrightarrow> containerStatusChangeStatus known steady = ContainerStopped)
   \<and> (known \<noteq> steady \<and> known \<noteq> ContainerManifestPulled \<and> known \<noteq> ContainerStopped
        \<longrightarrow> containerStatusChangeStatus known steady = ContainerStatusNone)
   \<and> (steady \<noteq> ContainerPulled
        \<longrightarrow> containerStatusChangeStatus ContainerPulled steady = ContainerStatusNone)
   \<and> (steady \<noteq> ContainerCreated
        \<longrightarrow> containerStatusChangeStatus ContainerCreated steady = ContainerStatusNone)"
  by (simp add: containerStatusChangeStatus_def)

theorem containerStatusChangeStatus_collapses_witness:
  "containerStatusChangeStatus ContainerRunning ContainerRunning = ContainerRunning
   \<and> containerStatusChangeStatus ContainerManifestPulled ContainerRunning = ContainerManifestPulled
   \<and> containerStatusChangeStatus ContainerStopped ContainerRunning = ContainerStopped
   \<and> containerStatusChangeStatus ContainerPulled ContainerRunning = ContainerStatusNone
   \<and> containerStatusChangeStatus ContainerCreated ContainerRunning = ContainerStatusNone
   \<and> containerStatusChangeStatus ContainerResourcesProvisioned ContainerResourcesProvisioned
       = ContainerRunning"
  using containerStatusChangeStatus_collapses [of ContainerRunning ContainerRunning]
    containerStatusChangeStatus_collapses [of ContainerManifestPulled ContainerRunning]
    containerStatusChangeStatus_collapses [of ContainerStopped ContainerRunning]
    containerStatusChangeStatus_collapses [of ContainerPulled ContainerRunning]
    containerStatusChangeStatus_collapses [of ContainerCreated ContainerRunning]
    containerStatusChangeStatus_collapses
      [of ContainerResourcesProvisioned ContainerResourcesProvisioned]
  by simp


text \<open>
  C7: events of internal tasks and internal containers are filtered out. For every task
  whose \<^verbatim>\<open>IsInternal\<close> flag is set, \<^verbatim>\<open>NewTaskStateChangeEvent\<close> returns the empty event
  and an \<^verbatim>\<open>ErrShouldNotSendEvent\<close> naming the task, whatever the task's statuses; for
  every container whose \<^verbatim>\<open>IsInternal()\<close> holds, \<^verbatim>\<open>NewContainerStateChangeEvent\<close> returns
  the empty event and an \<^verbatim>\<open>ErrShouldNotSendEvent\<close> naming the container, whatever the
  container's statuses.
\<close>

theorem internal_events_suppressed:
  "(Task.IsInternal task \<longrightarrow>
      NewTaskStateChangeEvent BackendRecognized task reason
        = (emptyTaskStateChange, Some (ErrShouldNotSendEvent (Arn task))))
   \<and> (Container.IsInternal cont \<longrightarrow>
      NewContainerStateChangeEvent ShouldReportToBackend task' cont reason'
        = (emptyContainerStateChange, Some (ErrShouldNotSendEvent (Name cont))))"
  by (simp add: NewTaskStateChangeEvent_def NewContainerStateChangeEvent_def
      newUncheckedContainerStateChangeEvent_def)

theorem internal_events_suppressed_witness:
  "NewTaskStateChangeEvent TaskStatus_BackendRecognized
       (sampleTask\<lparr>Task.IsInternal := True, Task.KnownStatus := TaskRunning\<rparr>) []
     = (emptyTaskStateChange, Some (ErrShouldNotSendEvent ''test-arn''))
   \<and> NewContainerStateChangeEvent ContainerStatus_ShouldReportToBackend sampleTask
       (sampleContainer\<lparr>Container.IsInternal := True,
                        Container.KnownStatus := ContainerRunning\<rparr>) []
     = (emptyContainerStateChange, Some (ErrShouldNotSendEvent ''A''))"
  using internal_events_suppressed
    [of "sampleTask\<lparr>Task.IsInternal := True, Task.KnownStatus := TaskRunning\<rparr>"
        TaskStatus_BackendRecognized "[]"
        "sampleContainer\<lparr>Container.IsInternal := True,
                         Container.KnownStatus := ContainerRunning\<rparr>"
        ContainerStatus_ShouldReportToBackend sampleTask "[]"]
  by (simp add: sampleTask_def sampleContainer_def)

text \<open>
  C1, as the claim states it, fails for containers: for a container that is not internal
  and whose sent status equals its known status RUNNING,
  \<^verbatim>\<open>NewContainerStateChangeEvent\<close> returns its "already sent" error, and next to it not
  the empty event but the event that \<^verbatim>\<open>newUncheckedContainerStateChangeEvent\<close> built.
\<close>

theorem returned_container_event_counterexample:
  "ContainerStatus_ge (Container.SentStatus alreadySentContainer)
     (Container.KnownStatus alreadySentContainer)
   \<and> NewContainerStateChangeEvent ContainerStatus_ShouldReportToBackend sampleTask
        alreadySentContainer []
       = (\<lparr> TaskArn = ''test-arn'', RuntimeID = [], ContainerName = ''A'',
            Status = ContainerRunning, ImageDigest = [], Reason = [], ExitCode = None,
            PortBindings = [], Container = Some alreadySentContainer \<rparr>,
          Some (ErrShouldNotSendEvent
            (''create container state change event api: status [RUNNING] already sent''
               @ '' for container A, task test-arn'')))
   \<and> fst (NewContainerStateChangeEvent ContainerStatus_ShouldReportToBackend sampleTask
          alreadySentContainer [])
       \<noteq> emptyContainerStateChange"
  by (simp add: alreadySentContainer_def sampleContainer_def sampleTask_def
      NewContainerStateChangeEvent_def newUncheckedContainerStateChangeEvent_def
      ContainerStatus_ShouldReportToBackend_def containerStatusChangeStatus_def
      ContainerStatus_ge_def DigestResolved_def emptyContainerStateChange_def)

text \<open>
  C1, amended: a state-change event for a given status is produced at most once. Whenever
  a task's sent status is greater than or equal to its known status,
  \<^verbatim>\<open>NewTaskStateChangeEvent\<close> returns an error and the empty event. Whenever a
  container's sent status is greater than or equal to its known status,
  \<^verbatim>\<open>NewContainerStateChangeEvent\<close> returns an error, and next to the error the event that
  \<^verbatim>\<open>newUncheckedContainerStateChangeEvent\<close> returned: the empty event when the container
  is internal or the pause container of a service-connect task in bridge mode is not
  found, and otherwise the populated event that names and carries the container, with an
  \<^verbatim>\<open>ErrShouldNotSendEvent\<close> as the error. So once the known status has been recorded as
  sent, asking again gives an error, for tasks and for containers.
\<close>

theorem no_event_for_sent_status:
  "(TaskStatus_ge (Task.SentStatus task) (Task.KnownStatus task) \<longrightarrow>
      fst (NewTaskStateChangeEvent BackendRecognized task reason) = emptyTaskStateChange
      \<and> snd (NewTaskStateChangeEvent BackendRecognized task reason) \<noteq> None)
   \<and> (ContainerStatus_ge (Container.SentStatus cont) (Container.KnownStatus cont) \<longrightarrow>
      snd (NewContainerStateChangeEvent ShouldReportToBackend task' cont reason') \<noteq> None
      \<and> fst (NewContainerStateChangeEvent ShouldReportToBackend task' cont reason')
          = fst (newUncheckedContainerStateChangeEvent task' cont reason')
      \<and> (Container.IsInternal cont
           \<or> (IsServiceConnectEnabled task' \<and> IsNetworkModeBridge task'
               \<and> BridgeModePauseContainer task' (Name cont) = None) \<longrightarrow>
           fst (NewContainerStateChangeEvent ShouldReportToBackend task' cont reason')
             = emptyContainerStateChange)
      \<and> (\<not> Container.IsInternal cont
           \<and> \<not> (IsServiceConnectEnabled task' \<and> IsNetworkModeBridge task'
                  \<and> BridgeModePauseContainer task' (Name cont) = None) \<longrightarrow>
           ContainerStateChange.Container
               (fst (NewContainerStateChangeEvent ShouldReportToBackend task' cont reason'))
             = Some cont
           \<and> ContainerStateChange.ContainerName
               (fst (NewContainerStateChangeEvent ShouldReportToBackend task' cont reason'))
             = Name cont
           \<and> ContainerStateChange.TaskArn
               (fst (NewContainerStateChangeEvent ShouldReportToBackend task' cont reason'))
             = Arn task'
           \<and> ContainerStateChange.Status
               (fst (NewContainerStateChangeEvent ShouldReportToBackend task' cont reason'))
             = containerStatusChangeStatus (Container.KnownStatus cont) (SteadyStateStatus cont)
           \<and> isErrShouldNotSendEvent
               (snd (NewContainerStateChangeEvent ShouldReportToBackend task' cont reason'))))
   \<and> snd (NewTaskStateChangeEvent BackendRecognized
            (task\<lparr>Task.SentStatus := Task.KnownStatus task\<rparr>) reason) \<noteq> None
   \<and> snd (NewContainerStateChangeEvent ShouldReportToBackend task'
            (cont\<lparr>Container.SentStatus := Container.KnownStatus cont\<rparr>) reason') \<noteq> None"
proof (intro conjI impI)
  assume "TaskStatus_ge (Task.SentStatus task) (Task.KnownStatus task)"
  then show "fst (NewTaskStateChangeEvent BackendRecognized task reason) = emptyTaskStateChange"
    and "snd (NewTaskStateChangeEvent BackendRecognized task reason) \<noteq> None"
    by (simp_all add: NewTaskStateChangeEvent_def Let_def)
next
  assume sent: "ContainerStatus_ge (Container.SentStatus cont) (Container.KnownStatus cont)"
  then show "snd (NewContainerStateChangeEvent ShouldReportToBackend task' cont reason') \<noteq> None"
    by (auto simp: NewContainerStateChangeEvent_def Let_def split: prod.splits option.splits)
  from sent show "fst (NewContainerStateChangeEvent ShouldReportToBackend task' cont reason')
      = fst (newUncheckedContainerStateChangeEvent task' cont reason')"
    by (auto simp: NewContainerStateChangeEvent_def Let_def split: prod.splits option.splits)
  {
    assume "Container.IsInternal cont
           \<or> (IsServiceConnectEnabled task' \<and> IsNetworkModeBridge task'
               \<and> BridgeModePauseContainer task' (Name cont) = None)"
    then show "fst (NewContainerStateChangeEvent ShouldReportToBackend task' cont reason')
             = emptyContainerStateChange"
      by (auto simp: NewContainerStateChangeEvent_def newUncheckedContainerStateChangeEvent_def
          Let_def)
  }
  {
    assume built: "\<not> Container.IsInternal cont
           \<and> \<not> (IsServiceConnectEnabled task' \<and> IsNetworkModeBridge task'
                  \<and> BridgeModePauseContainer task' (Name cont) = None)"
    with sent show "ContainerStateChange.Container
               (fst (NewContainerStateChangeEvent ShouldReportToBackend task' cont reason'))
             = Some cont"
      and "ContainerStateChange.ContainerName
               (fst (NewContainerStateChangeEvent ShouldReportToBackend task' cont reason'))
             = Name cont"
      and "ContainerStateChange.TaskArn
               (fst (NewContainerStateChangeEvent ShouldReportToBackend task' cont reason'))
             = Arn task'"
      and "ContainerStateChange.Status
               (fst (NewContainerStateChangeEvent ShouldReportToBackend task' cont reason'))
             = containerStatusChangeStatus (Container.KnownStatus cont) (SteadyStateStatus cont)"
      and "isErrShouldNotSendEvent
               (snd (NewContainerStateChangeEvent ShouldReportToBackend task' cont reason'))"
      by (auto simp: NewContainerStateChangeEvent_def newUncheckedContainerStateChangeEvent_def
          isErrShouldNotSendEvent_def Let_def split: option.splits)
  }
next
  show "snd (NewTaskStateChangeEvent BackendRecognized
              (task\<lparr>Task.SentStatus := Task.KnownStatus task\<rparr>) reason) \<noteq> None"
    by (simp add: NewTaskStateChangeEvent_def Let_def TaskStatus_ge_def)
next
  have "ContainerStatus_ge
          (Container.SentStatus (cont\<lparr>Container.SentStatus := Container.KnownStatus cont\<rparr>))
          (Container.KnownStatus (cont\<lparr>Container.SentStatus := Container.KnownStatus cont\<rparr>))"
    by (simp add: ContainerStatus_ge_def)
  then show "snd (NewContainerStateChangeEvent ShouldReportToBackend task'
              (cont\<lparr>Container.SentStatus := Container.KnownStatus cont\<rparr>) reason') \<noteq> None"
    by (auto simp: NewContainerStateChangeEvent_def Let_def split: prod.splits option.splits)
qed

theorem no_event_for_sent_status_witness:
  "fst (NewTaskStateChangeEvent TaskStatus_BackendRecognized
          (sampleTask\<lparr>Task.KnownStatus := TaskRunning, Task.SentStatus := TaskRunning\<rparr>) [])
     = emptyTaskStateChange
   \<and> snd (NewTaskStateChangeEvent TaskStatus_BackendRecognized
          (sampleTask\<lparr>Task.KnownStatus := TaskRunning, Task.SentStatus := TaskRunning\<rparr>) [])
     \<noteq> None
   \<and> snd (NewContainerStateChangeEvent ContainerStatus_ShouldReportToBackend sampleTask
          alreadySentContainer [])
     \<noteq> None
   \<and> ContainerStateChange.Container
        (fst (NewContainerStateChangeEvent ContainerStatus_ShouldReportToBackend sampleTask
               alreadySentContainer []))
     = Some alreadySentContainer
   \<and> ContainerStateChange.Status
        (fst (NewContainerStateChangeEvent ContainerStatus_ShouldReportToBackend sampleTask
               alreadySentContainer []))
     = ContainerRunning
   \<and> isErrShouldNotSendEvent
        (snd (NewContainerStateChangeEvent ContainerStatus_ShouldReportToBackend sampleTask
               alreadySentContainer []))
   \<and> fst (NewContainerStateChangeEvent ContainerStatus_ShouldReportToBackend sampleTask
          (alreadySentContainer\<lparr>Container.IsInternal := True\<rparr>) [])
     = emptyContainerStateChange"
proof -
  have sent: "ContainerStatus_ge (Container.SentStatus alreadySentContainer)
      (Container.KnownStatus alreadySentContainer)"
    "ContainerStatus_ge
      (Container.SentStatus (alreadySentContainer\<lparr>Container.IsInternal := True\<rparr>))
      (Container.KnownStatus (alreadySentContainer\<lparr>Container.IsInternal := True\<rparr>))"
    "TaskStatus_ge
      (Task.SentStatus
         (sampleTask\<lparr>Task.KnownStatus := TaskRunning, Task.SentStatus := TaskRunning\<rparr>))
      (Task.KnownStatus
         (sampleTask\<lparr>Task.KnownStatus := TaskRunning, Task.SentStatus := TaskRunning\<rparr>))"
    by (simp_all add: alreadySentContainer_def sampleContainer_def ContainerStatus_ge_def
        TaskStatus_ge_def)
  have fields: "\<not> Container.IsInternal alreadySentContainer"
    "\<not> IsServiceConnectEnabled sampleTask"
    "Container.KnownStatus alreadySentContainer = ContainerRunning"
    "SteadyStateStatus alreadySentContainer = ContainerRunning"
    by (simp_all add: alreadySentContainer_def sampleContainer_def sampleTask_def)
  have internal: "Container.IsInternal (alreadySentContainer\<lparr>Container.IsInternal := True\<rparr>)"
    by simp
  note plain = no_event_for_sent_status
    [of "sampleTask\<lparr>Task.KnownStatus := TaskRunning, Task.SentStatus := TaskRunning\<rparr>"
        TaskStatus_BackendRecognized "[]" alreadySentContainer
        ContainerStatus_ShouldReportToBackend sampleTask "[]"]
  note hidden = no_event_for_sent_status
    [of "sampleTask\<lparr>Task.KnownStatus := TaskRunning, Task.SentStatus := TaskRunning\<rparr>"
        TaskStatus_BackendRecognized "[]" "alreadySentContainer\<lparr>Container.IsInternal := True\<rparr>"
        ContainerStatus_ShouldReportToBackend sampleTask "[]"]
  from plain sent(3) have t:
    "fst (NewTaskStateChangeEvent TaskStatus_BackendRecognized
          (sampleTask\<lparr>Task.KnownStatus := TaskRunning, Task.SentStatus := TaskRunning\<rparr>) [])
       = emptyTaskStateChange"
    "snd (NewTaskStateChangeEvent TaskStatus_BackendRecognized
          (sampleTask\<lparr>Task.KnownStatus := TaskRunning, Task.SentStatus := TaskRunning\<rparr>) [])
       \<noteq> None"
    by blast+
  from plain sent(1) fields(1,2) have c:
    "snd (NewContainerStateChangeEvent ContainerStatus_ShouldReportToBackend sampleTask
          alreadySentContainer []) \<noteq> None"
    "ContainerStateChange.Container
        (fst (NewContainerStateChangeEvent ContainerStatus_ShouldReportToBackend sampleTask
               alreadySentContainer []))
       = Some alreadySentContainer"
    "ContainerStateChange.Status
        (fst (NewContainerStateChangeEvent ContainerStatus_ShouldReportToBackend sampleTask
               alreadySentContainer []))
       = containerStatusChangeStatus (Container.KnownStatus alreadySentContainer)
           (SteadyStateStatus alreadySentContainer)"
    "isErrShouldNotSendEvent
        (snd (NewContainerStateChangeEvent ContainerStatus_ShouldReportToBackend sampleTask
               alreadySentContainer []))"
    by blast+
  from hidden sent(2) internal have i:
    "fst (NewContainerStateChangeEvent ContainerStatus_ShouldReportToBackend sampleTask
          (alreadySentContainer\<lparr>Container.IsInternal := True\<rparr>) [])
       = emptyContainerStateChange"
    by blast
  show ?thesis
    using t c i by (simp add: fields containerStatusChangeStatus_def)
qed

text \<open>
  C3, as the claim states it, fails: a task whose known status is MANIFEST_PULLED, whose
  sent status is MANIFEST_PULLED too and none of whose containers has a resolved digest
  gets the plain "already sent" error, not an \<^verbatim>\<open>ErrShouldNotSendEvent\<close>, because the
  sent-status check comes before the digest check.
\<close>

theorem manifest_pulled_error_kind_counterexample:
  "Task.KnownStatus alreadySentTask = TaskManifestPulled
   \<and> \<not> HasAContainerWithResolvedDigest alreadySentTask
   \<and> NewTaskStateChangeEvent TaskStatus_BackendRecognized alreadySentTask []
       = (emptyTaskStateChange,
          Some (Errorf
            ''create task state change event api: status [MANIFEST_PULLED] already sent''))
   \<and> \<not> isErrShouldNotSendEvent
         (snd (NewTaskStateChangeEvent TaskStatus_BackendRecognized alreadySentTask []))"
  by (simp add: alreadySentTask_def sampleTask_def sampleContainer_def
      NewTaskStateChangeEvent_def HasAContainerWithResolvedDigest_def DigestResolved_def
      TaskStatus_ge_def isErrShouldNotSendEvent_def)

text \<open>
  C3, amended: a MANIFEST_PULLED event is created only when a digest was resolved. For a
  task whose known status is MANIFEST_PULLED and none of whose containers has a resolved
  digest, \<^verbatim>\<open>NewTaskStateChangeEvent\<close> returns an error and the empty event; the error is
  an \<^verbatim>\<open>ErrShouldNotSendEvent\<close> when the task is internal or its sent status is below
  MANIFEST_PULLED, and the plain "already sent" error otherwise. For a container whose
  known status is MANIFEST_PULLED and whose digest is not resolved,
  \<^verbatim>\<open>NewContainerStateChangeEvent\<close> returns an error; it is an \<^verbatim>\<open>ErrShouldNotSendEvent\<close>
  when the container is internal, or the task is not a service-connect task in bridge
  mode, or the pause container of the container is found.
\<close>

theorem manifest_pulled_needs_digest:
  "(Task.KnownStatus task = TaskManifestPulled \<and> \<not> HasAContainerWithResolvedDigest task \<longrightarrow>
      fst (NewTaskStateChangeEvent BackendRecognized task reason) = emptyTaskStateChange
      \<and> snd (NewTaskStateChangeEvent BackendRecognized task reason) \<noteq> None
      \<and> (Task.IsInternal task \<or> \<not> TaskStatus_ge (Task.SentStatus task) TaskManifestPulled \<longrightarrow>
           isErrShouldNotSendEvent (snd (NewTaskStateChangeEvent BackendRecognized task reason)))
      \<and> (\<not> Task.IsInternal task \<and> TaskStatus_ge (Task.SentStatus task) TaskManifestPulled \<longrightarrow>
           snd (NewTaskStateChangeEvent BackendRecognized task reason)
             = Some (Errorf (''create task state change event api: status [''
                 @ TaskStatus_String TaskManifestPulled @ ''] already sent''))))
   \<and> (Container.KnownStatus cont = ContainerManifestPulled \<and> \<not> DigestResolved cont \<longrightarrow>
      snd (NewContainerStateChangeEvent ShouldReportToBackend task' cont reason') \<noteq> None
      \<and> (Container.IsInternal cont
           \<or> \<not> (IsServiceConnectEnabled task' \<and> IsNetworkModeBridge task')
           \<or> BridgeModePauseContainer task' (Name cont) \<noteq> None \<longrightarrow>
           isErrShouldNotSendEvent
             (snd (NewContainerStateChangeEvent ShouldReportToBackend task' cont reason'))))"
  by (auto simp: NewTaskStateChangeEvent_def NewContainerStateChangeEvent_def
      newUncheckedContainerStateChangeEvent_def isErrShouldNotSendEvent_def Let_def
      split: option.splits)

theorem manifest_pulled_needs_digest_witness:
  "fst (NewTaskStateChangeEvent TaskStatus_BackendRecognized
          (sampleTask\<lparr>Task.KnownStatus := TaskManifestPulled\<rparr>) []) = emptyTaskStateChange
   \<and> isErrShouldNotSendEvent
        (snd (NewTaskStateChangeEvent TaskStatus_BackendRecognized
               (sampleTask\<lparr>Task.KnownStatus := TaskManifestPulled\<rparr>) []))
   \<and> snd (NewTaskStateChangeEvent TaskStatus_BackendRecognized alreadySentTask [])
       = Some (Errorf
           ''create task state change event api: status [MANIFEST_PULLED] already sent'')
   \<and> isErrShouldNotSendEvent
        (snd (NewContainerStateChangeEvent ContainerStatus_ShouldReportToBackend sampleTask
               (sampleContainer\<lparr>Container.KnownStatus := ContainerManifestPulled\<rparr>) []))"
  using manifest_pulled_needs_digest
    [of "sampleTask\<lparr>Task.KnownStatus := TaskManifestPulled\<rparr>"
        TaskStatus_BackendRecognized "[]"
        "sampleContainer\<lparr>Container.KnownStatus := ContainerManifestPulled\<rparr>"
        ContainerStatus_ShouldReportToBackend sampleTask "[]"]
    manifest_pulled_needs_digest
    [of alreadySentTask
        TaskStatus_BackendRecognized "[]"
        "sampleContainer\<lparr>Container.KnownStatus := ContainerManifestPulled\<rparr>"
        ContainerStatus_ShouldReportToBackend sampleTask "[]"]
  by (simp add: alreadySentTask_def sampleTask_def sampleContainer_def
      HasAContainerWithResolvedDigest_def DigestResolved_def TaskStatus_ge_def)


section \<open>Results on the payload\<close>

lemma int32_id: "0 \<le> x \<Longrightarrow> x < 2147483648 \<Longrightarrow> int32 x = x"
  by (simp add: int32_def sint_sbintrunc' signed_take_bit_int_eq_self)

lemma portBindingsLoop_singular:
  "list_all (\<lambda>b. int32 (int (PortBinding.ContainerPort b)) \<in> portSet) pbs \<Longrightarrow>
   portBindingsLoop portSet pbs (nbs, m) = (nbs @ map singularBinding pbs, m)"
  by (induction pbs arbitrary: nbs) simp_all

lemma manyBindings_all_singular:
  "list_all (\<lambda>b. int32 (int (PortBinding.ContainerPort b)) \<in> {8000..8100})
     (map samplePortBinding [0..<101])"
  by (simp add: list_all_iff samplePortBinding_def int32_id)

lemma manyBindings_network:
  "getNetworkBindings P (manyBindingsChange stat)
     = Some (map singularBinding (map samplePortBinding [0..<101]))"
  using manyBindings_all_singular
  by (simp add: getNetworkBindings_def manyBindingsChange_def portRangeContainer_def
      sampleContainer_def portBindingsLoop_singular)

text \<open>
  C9, as the claim states it, fails: for a state change whose status is not one of
  MANIFEST_PULLED, RUNNING and STOPPED (here NONE, the status of the event of a container
  that is CREATED), whose container asked for a port range and whose network bindings
  number 101, \<^verbatim>\<open>buildContainerStateChangePayload\<close> returns neither an error nor a
  payload: it has returned before it counts the bindings.
\<close>

theorem payload_port_range_limit_counterexample:
  "HasPortRange portRangeContainer
   \<and> ContainerStateChange.Container (manyBindingsChange ContainerStatusNone)
       = Some portRangeContainer
   \<and> map_option length
        (getNetworkBindings sampleParsePortRangeToInt (manyBindingsChange ContainerStatusNone))
       = Some 101
   \<and> buildContainerStateChangePayload sampleBackendStatusString sampleParsePortRangeToInt
        (manyBindingsChange ContainerStatusNone) = Some (None, None)"
  by (simp add: manyBindings_network)
     (simp add: buildContainerStateChangePayload_def manyBindingsChange_def
        portRangeContainer_def sampleContainer_def)

text \<open>
  C9, amended: for a state change that names its container, carries it, and has status
  MANIFEST_PULLED, RUNNING or STOPPED: if the container asked for a port range and the
  computed network bindings number more than 100, \<^verbatim>\<open>buildContainerStateChangePayload\<close>
  returns an error and no payload; otherwise it returns a payload that holds the computed
  network bindings, and no error.
\<close>

theorem payload_port_range_limit:
  "ContainerStateChange.ContainerName change \<noteq> []
   \<and> ContainerStateChange.Status change
        \<in> {ContainerManifestPulled, ContainerRunning, ContainerStopped}
   \<and> ContainerStateChange.Container change = Some cont
   \<longrightarrow>
   (\<exists>networkBindings.
      getNetworkBindings ParsePortRangeToInt change = Some networkBindings
      \<and> (HasPortRange cont \<and> length networkBindings > 100 \<longrightarrow>
           (\<exists>msg. buildContainerStateChangePayload BackendStatusString ParsePortRangeToInt change
                    = Some (None, Some (Errorf msg))))
      \<and> (\<not> (HasPortRange cont \<and> length networkBindings > 100) \<longrightarrow>
           (\<exists>payload. buildContainerStateChangePayload BackendStatusString ParsePortRangeToInt change
                    = Some (Some payload, None)
               \<and> NetworkBindings payload = networkBindings)))"
  by (auto simp: buildContainerStateChangePayload_def getNetworkBindings_def Let_def
      ecsMaxNetworkBindingsLength_def split: option.splits prod.splits)

theorem payload_port_range_limit_witness:
  "(\<exists>msg. buildContainerStateChangePayload sampleBackendStatusString sampleParsePortRangeToInt
            (manyBindingsChange ContainerRunning) = Some (None, Some (Errorf msg)))
   \<and> (\<exists>payload. buildContainerStateChangePayload sampleBackendStatusString
            sampleParsePortRangeToInt
            ((manyBindingsChange ContainerRunning)\<lparr>PortBindings := [samplePortBinding 0]\<rparr>)
          = Some (Some payload, None)
        \<and> NetworkBindings payload = [singularBinding (samplePortBinding 0)])"
proof -
  have big: "getNetworkBindings sampleParsePortRangeToInt (manyBindingsChange ContainerRunning)
      = Some (map singularBinding (map samplePortBinding [0..<101]))"
    by (rule manyBindings_network)
  have small: "getNetworkBindings sampleParsePortRangeToInt
      ((manyBindingsChange ContainerRunning)\<lparr>PortBindings := [samplePortBinding 0]\<rparr>)
      = Some [singularBinding (samplePortBinding 0)]"
    by (simp add: getNetworkBindings_def manyBindingsChange_def portRangeContainer_def
        sampleContainer_def samplePortBinding_def int32_id)
  have name: "ContainerStateChange.ContainerName (manyBindingsChange ContainerRunning) \<noteq> []"
    and stat: "ContainerStateChange.Status (manyBindingsChange ContainerRunning) = ContainerRunning"
    and cont: "ContainerStateChange.Container (manyBindingsChange ContainerRunning)
                 = Some portRangeContainer"
    and range: "HasPortRange portRangeContainer"
    by (simp_all add: manyBindingsChange_def portRangeContainer_def)
  from payload_port_range_limit
    [of "manyBindingsChange ContainerRunning" portRangeContainer sampleParsePortRangeToInt
        sampleBackendStatusString]
    payload_port_range_limit
    [of "(manyBindingsChange ContainerRunning)\<lparr>PortBindings := [samplePortBinding 0]\<rparr>"
        portRangeContainer sampleParsePortRangeToInt sampleBackendStatusString]
  show ?thesis
    using big small name stat cont range by simp
qed


section \<open>Results on endpoints\<close>

text \<open>
  C10: \<^verbatim>\<open>AddScheme\<close> returns the empty string unchanged, returns a string that starts
  with \<^verbatim>\<open>http://\<close> or \<^verbatim>\<open>https://\<close> unchanged, and puts \<^verbatim>\<open>https://\<close> in front of every
  other string; hence applying it twice is the same as applying it once.
\<close>

theorem AddScheme_idempotent:
  "AddScheme [] = []
   \<and> (prefix ''http://'' s \<or> prefix ''https://'' s \<longrightarrow> AddScheme s = s)
   \<and> (s \<noteq> [] \<and> \<not> prefix ''http://'' s \<and> \<not> prefix ''https://'' s
        \<longrightarrow> AddScheme s = ''https://'' @ s)
   \<and> AddScheme (AddScheme s) = AddScheme s"
  by (simp add: AddScheme_def schemeRegex_MatchString_def httpsPrefix_def)

theorem AddScheme_idempotent_witness:
  "AddScheme ''http://ecs.example'' = ''http://ecs.example''
   \<and> AddScheme ''https://ecs.example'' = ''https://ecs.example''
   \<and> AddScheme ''ecs.example'' = ''https://ecs.example''
   \<and> AddScheme (AddScheme ''ecs.example'') = AddScheme ''ecs.example''"
  using AddScheme_idempotent [of "''http://ecs.example''"]
    AddScheme_idempotent [of "''https://ecs.example''"]
    AddScheme_idempotent [of "''ecs.example''"]
  by simp

section \<open>Results on the host resource ledger\<close>

lemma IsConsuming_iff: "IsConsuming l a \<longleftrightarrow> a \<in> consumingArns l"
  by (auto simp: IsConsuming_def consumingArns_def list_ex_iff)

lemma isManaged_iff: "isManaged e a \<longleftrightarrow> a \<in> managedArns e"
  by (auto simp: isManaged_def managedArns_def list_ex_iff)

lemma isQueued_iff: "isQueued e a \<longleftrightarrow> a \<in> queuedArns e"
  by (auto simp: isQueued_def queuedArns_def Remove_def list_ex_iff)

lemma consumingArns_TryConsume:
  "consumingArns (fst (TryConsume l t)) \<subseteq> insert (Arn t) (consumingArns l)"
  by (auto simp: TryConsume_def consumingArns_def)

lemma consumingArns_Release: "consumingArns (Release l a) = consumingArns l - {a}"
  by (auto simp: Release_def consumingArns_def)

lemma Release_not_consuming: "\<not> IsConsuming l a \<Longrightarrow> Release l a = l"
proof -
  assume "\<not> IsConsuming l a"
  then have "filter (\<lambda>entry. fst entry \<noteq> a) (consumed l) = consumed l"
    by (auto simp: IsConsuming_iff consumingArns_def filter_id_conv)
  then show ?thesis by (simp add: Release_def)
qed

lemma TryConsume_exempt: "exempt l (LaunchType t) \<Longrightarrow> TryConsume l t = (l, True)"
  by (simp add: TryConsume_def)

lemma exempt_applyLedgerOp: "exempt (applyLedgerOp l op) = exempt l"
  by (cases op) (simp_all add: TryConsume_def Release_def)

lemma exempt_step:
  "\<not> IsConsuming l a \<Longrightarrow> concernsOnlyExempt (exempt l) a op \<Longrightarrow>
   \<not> IsConsuming (applyLedgerOp l op) a"
proof (cases op)
  case (DoTryConsume t)
  assume "\<not> IsConsuming l a" "concernsOnlyExempt (exempt l) a op"
  with DoTryConsume consumingArns_TryConsume [of l t] show ?thesis
    by (auto simp: IsConsuming_iff TryConsume_exempt)
next
  case (DoRelease other)
  assume "\<not> IsConsuming l a"
  with DoRelease show ?thesis
    by (simp add: IsConsuming_iff consumingArns_Release)
qed

lemma exempt_run:
  "\<not> IsConsuming l a \<Longrightarrow> list_all (concernsOnlyExempt (exempt l) a) ops \<Longrightarrow>
   \<not> IsConsuming (foldl applyLedgerOp l ops) a"
proof (induction ops arbitrary: l)
  case Nil
  then show ?case by simp
next
  case (Cons op ops)
  from Cons.prems have "\<not> IsConsuming (applyLedgerOp l op) a"
    by (simp add: exempt_step)
  moreover from Cons.prems
  have "list_all (concernsOnlyExempt (exempt (applyLedgerOp l op)) a) ops"
    by (simp add: exempt_applyLedgerOp)
  ultimately show ?case
    using Cons.IH [of "applyLedgerOp l op"] by simp
qed

text \<open>
  C2: every task whose launch type is exempt from host resource accounting bypasses
  accounting entirely, whichever launch types the ledger exempts. \<^verbatim>\<open>TryConsume\<close>
  succeeds for the task and leaves the ledger as it was; and through every run of ledger
  operations in which the task's ARN is only ever submitted under an exempt launch type,
  starting from a ledger in which it does not consume, the ledger never reports the ARN as
  consuming and \<^verbatim>\<open>Release\<close> of it changes nothing.
\<close>

theorem exempt_tasks_bypass_accounting:
  "exempt l (LaunchType t) \<longrightarrow>
     TryConsume l t = (l, True)
     \<and> (\<not> IsConsuming l (Arn t) \<and> list_all (concernsOnlyExempt (exempt l) (Arn t)) ops \<longrightarrow>
          \<not> IsConsuming (foldl applyLedgerOp l ops) (Arn t)
          \<and> Release (foldl applyLedgerOp l ops) (Arn t) = foldl applyLedgerOp l ops)"
  by (simp add: TryConsume_exempt exempt_run Release_not_consuming)

theorem exempt_tasks_bypass_accounting_witness:
  "TryConsume (ledger (newEngine testExemptLaunchType testHostResources)) fargateTask
     = (ledger (newEngine testExemptLaunchType testHostResources), True)
   \<and> \<not> IsConsuming
        (foldl applyLedgerOp (ledger (newEngine testExemptLaunchType testHostResources))
           [DoTryConsume fargateTask, DoTryConsume sampleTask, DoRelease ''IntegTaskArn''])
        ''IntegTaskArn''
   \<and> Release (foldl applyLedgerOp (ledger (newEngine testExemptLaunchType testHostResources))
           [DoTryConsume fargateTask, DoTryConsume sampleTask]) ''IntegTaskArn''
       = foldl applyLedgerOp (ledger (newEngine testExemptLaunchType testHostResources))
           [DoTryConsume fargateTask, DoTryConsume sampleTask]"
  using exempt_tasks_bypass_accounting
    [of "ledger (newEngine testExemptLaunchType testHostResources)" fargateTask
        "[DoTryConsume fargateTask, DoTryConsume sampleTask, DoRelease ''IntegTaskArn'']"]
    exempt_tasks_bypass_accounting
    [of "ledger (newEngine testExemptLaunchType testHostResources)" fargateTask
        "[DoTryConsume fargateTask, DoTryConsume sampleTask]"]
  by (simp add: fargateTask_def sampleTask_def testExemptLaunchType_def newEngine_def
      IsConsuming_def)


section \<open>Results on the dependency graph and the container state machine\<close>

lemma blocked_by_dependency:
  "dep \<in> set (Container.DependsOn cont) \<Longrightarrow> \<not> dependencySatisfied allContainers dep \<Longrightarrow>
   s \<noteq> ContainerManifestPulled \<Longrightarrow> \<not> CanTransition cont s allContainers"
  by (auto simp: CanTransition_def list_all_iff)

text \<open>
  C4: reaching MANIFEST_PULLED is not gated by dependencies. Take a fresh container that
  is not internal, to be driven at least to MANIFEST_PULLED, one of whose declared
  dependencies is unsatisfied, in a task that is not a service-connect task in bridge mode,
  on a runtime whose manifest pull for the container's image resolves a digest. Then the
  transition to MANIFEST_PULLED is allowed; one pass of the control loop takes the
  container to known status MANIFEST_PULLED with that digest; the constructor of container
  events then returns a MANIFEST_PULLED event carrying the digest, and no error; and for as
  long as the dependency is unsatisfied the container may go neither to PULLED nor to
  CREATED and further passes leave it as it is, while with all dependencies satisfied it
  may go on.
\<close>

theorem manifest_pull_not_gated:
  "dep \<in> set (Container.DependsOn cont) \<and> \<not> dependencySatisfied allContainers dep
   \<and> Container.KnownStatus cont = ContainerStatusNone
   \<and> Container.SentStatus cont = ContainerStatusNone
   \<and> ContainerStatus_ge (Container.DesiredStatus cont) ContainerManifestPulled
   \<and> \<not> Container.IsInternal cont
   \<and> SteadyStateStatus cont \<noteq> ContainerManifestPulled
   \<and> \<not> (IsServiceConnectEnabled t \<and> IsNetworkModeBridge t)
   \<and> PullImageManifest driver (Image cont) = Inr digest \<and> digest \<noteq> []
   \<longrightarrow>
   CanTransition cont ContainerManifestPulled allContainers
   \<and> Container.KnownStatus (controlLoopPass driver allContainers cont) = ContainerManifestPulled
   \<and> Container.ImageDigest (controlLoopPass driver allContainers cont) = digest
   \<and> DigestResolved (controlLoopPass driver allContainers cont)
   \<and> snd (NewContainerStateChangeEvent ContainerStatus_ShouldReportToBackend t
             (controlLoopPass driver allContainers cont) []) = None
   \<and> ContainerStateChange.Status
        (fst (NewContainerStateChangeEvent ContainerStatus_ShouldReportToBackend t
               (controlLoopPass driver allContainers cont) [])) = ContainerManifestPulled
   \<and> ContainerStateChange.ImageDigest
        (fst (NewContainerStateChangeEvent ContainerStatus_ShouldReportToBackend t
               (controlLoopPass driver allContainers cont) [])) = digest
   \<and> (\<not> dependencySatisfied laterContainers dep \<longrightarrow>
        \<not> CanTransition (controlLoopPass driver allContainers cont) ContainerPulled laterContainers
        \<and> \<not> CanTransition (controlLoopPass driver allContainers cont) ContainerCreated
              laterContainers
        \<and> controlLoopPass laterDriver laterContainers (controlLoopPass driver allContainers cont)
            = controlLoopPass driver allContainers cont)
   \<and> (list_all (dependencySatisfied laterContainers) (Container.DependsOn cont) \<longrightarrow>
        CanTransition (controlLoopPass driver allContainers cont) ContainerPulled laterContainers)"
proof (intro impI, elim conjE)
  assume dep: "dep \<in> set (Container.DependsOn cont)"
    and unsat: "\<not> dependencySatisfied allContainers dep"
    and known: "Container.KnownStatus cont = ContainerStatusNone"
    and sent: "Container.SentStatus cont = ContainerStatusNone"
    and desired: "ContainerStatus_ge (Container.DesiredStatus cont) ContainerManifestPulled"
    and internal: "\<not> Container.IsInternal cont"
    and steady: "SteadyStateStatus cont \<noteq> ContainerManifestPulled"
    and bridge: "\<not> (IsServiceConnectEnabled t \<and> IsNetworkModeBridge t)"
    and pull: "PullImageManifest driver (Image cont) = Inr digest"
    and digest: "digest \<noteq> []"
  define cont' where "cont' = cont\<lparr>Container.KnownStatus := ContainerManifestPulled,
                                    Container.ImageDigest := digest\<rparr>"
  from desired known have notyet:
    "\<not> ContainerStatus_ge (Container.KnownStatus cont) (Container.DesiredStatus cont)"
    by (cases "Container.DesiredStatus cont") (simp_all add: ContainerStatus_ge_def)
  have pass: "controlLoopPass driver allContainers cont = cont'"
    using notyet known pull
    by (simp add: controlLoopPass_def CanTransition_def Progress_def stepDone_def cont'_def)
  have deps': "Container.DependsOn cont' = Container.DependsOn cont"
    by (simp add: cont'_def)
  have event: "NewContainerStateChangeEvent ContainerStatus_ShouldReportToBackend t cont' []
      = ((fst (newUncheckedContainerStateChangeEvent t cont' []))
           \<lparr>ContainerStateChange.Reason :=
              (case ApplyingError cont' of None \<Rightarrow> [] | Some r \<Rightarrow> r)\<rparr>, None)"
    using internal bridge sent digest
    by (auto simp: NewContainerStateChangeEvent_def newUncheckedContainerStateChangeEvent_def
        cont'_def DigestResolved_def ContainerStatus_ge_def Let_def split: option.splits)
  have built: "fst (newUncheckedContainerStateChangeEvent t cont' [])
      = \<lparr> TaskArn = Arn t, RuntimeID = Container.RuntimeID cont, ContainerName = Name cont,
          Status = ContainerManifestPulled, ImageDigest = digest, Reason = [],
          ExitCode = KnownExitCode cont, PortBindings = KnownPortBindings cont,
          Container = Some cont' \<rparr>"
    using internal bridge steady
    by (auto simp: newUncheckedContainerStateChangeEvent_def cont'_def
        containerStatusChangeStatus_def Let_def)
  have blocked: "\<not> CanTransition cont' s others"
    if "\<not> dependencySatisfied others dep" "s \<noteq> ContainerManifestPulled" for s others
    using blocked_by_dependency [of dep cont' others s] dep deps' that by simp
  have stays: "controlLoopPass laterDriver others cont' = cont'"
    if "\<not> dependencySatisfied others dep" for others
    using blocked [OF that, of ContainerPulled]
    by (simp add: controlLoopPass_def cont'_def)
  show "CanTransition cont ContainerManifestPulled allContainers
   \<and> Container.KnownStatus (controlLoopPass driver allContainers cont) = ContainerManifestPulled
   \<and> Container.ImageDigest (controlLoopPass driver allContainers cont) = digest
   \<and> DigestResolved (controlLoopPass driver allContainers cont)
   \<and> snd (NewContainerStateChangeEvent ContainerStatus_ShouldReportToBackend t
             (controlLoopPass driver allContainers cont) []) = None
   \<and> ContainerStateChange.Status
        (fst (NewContainerStateChangeEvent ContainerStatus_ShouldReportToBackend t
               (controlLoopPass driver allContainers cont) [])) = ContainerManifestPulled
   \<and> ContainerStateChange.ImageDigest
        (fst (NewContainerStateChangeEvent ContainerStatus_ShouldReportToBackend t
               (controlLoopPass driver allContainers cont) [])) = digest
   \<and> (\<not> dependencySatisfied laterContainers dep \<longrightarrow>
        \<not> CanTransition (controlLoopPass driver allContainers cont) ContainerPulled laterContainers
        \<and> \<not> CanTransition (controlLoopPass driver allContainers cont) ContainerCreated
              laterContainers
        \<and> controlLoopPass laterDriver laterContainers (controlLoopPass driver allContainers cont)
            = controlLoopPass driver allContainers cont)
   \<and> (list_all (dependencySatisfied laterContainers) (Container.DependsOn cont) \<longrightarrow>
        CanTransition (controlLoopPass driver allContainers cont) ContainerPulled laterContainers)"
    unfolding pass
  proof (intro conjI impI)
    show "CanTransition cont ContainerManifestPulled allContainers"
      by (simp add: CanTransition_def)
    show "Container.KnownStatus cont' = ContainerManifestPulled"
      and "Container.ImageDigest cont' = digest"
      by (simp_all add: cont'_def)
    show "DigestResolved cont'"
      using digest by (simp add: cont'_def DigestResolved_def)
    show "snd (NewContainerStateChangeEvent ContainerStatus_ShouldReportToBackend t cont' [])
            = None"
      by (simp add: event)
    show "ContainerStateChange.Status
            (fst (NewContainerStateChangeEvent ContainerStatus_ShouldReportToBackend t cont' []))
            = ContainerManifestPulled"
      and "ContainerStateChange.ImageDigest
            (fst (NewContainerStateChangeEvent ContainerStatus_ShouldReportToBackend t cont' []))
            = digest"
      by (simp_all add: event built)
  next
    assume later: "\<not> dependencySatisfied laterContainers dep"
    show "\<not> CanTransition cont' ContainerPulled laterContainers"
      and "\<not> CanTransition cont' ContainerCreated laterContainers"
      using blocked [OF later] by simp_all
    show "controlLoopPass laterDriver laterContainers cont' = cont'"
      by (rule stays [OF later])
  next
    assume "list_all (dependencySatisfied laterContainers) (Container.DependsOn cont)"
    then show "CanTransition cont' ContainerPulled laterContainers"
      by (simp add: CanTransition_def deps')
  qed
qed

theorem manifest_pull_not_gated_witness:
  "Container.KnownStatus (controlLoopPass sampleDriver [firstContainer, secondContainer] secondContainer)
     = ContainerManifestPulled
   \<and> Container.ImageDigest
       (controlLoopPass sampleDriver [firstContainer, secondContainer] secondContainer) = ''sha256:1f''
   \<and> snd (NewContainerStateChangeEvent ContainerStatus_ShouldReportToBackend orderedTask
            (controlLoopPass sampleDriver [firstContainer, secondContainer] secondContainer) [])
       = None
   \<and> ContainerStateChange.Status
        (fst (NewContainerStateChangeEvent ContainerStatus_ShouldReportToBackend orderedTask
            (controlLoopPass sampleDriver [firstContainer, secondContainer] secondContainer) []))
       = ContainerManifestPulled
   \<and> \<not> CanTransition
          (controlLoopPass sampleDriver [firstContainer, secondContainer] secondContainer)
          ContainerCreated [firstContainer, secondContainer]
   \<and> controlLoopPass sampleDriver [firstContainer, secondContainer]
        (controlLoopPass sampleDriver [firstContainer, secondContainer] secondContainer)
       = controlLoopPass sampleDriver [firstContainer, secondContainer] secondContainer"
  using manifest_pull_not_gated
    [of "\<lparr> DependsOn.ContainerName = ''first'', Condition = COMPLETE \<rparr>" secondContainer
        "[firstContainer, secondContainer]" orderedTask sampleDriver "''sha256:1f''"
        "[firstContainer, secondContainer]" sampleDriver]
  by (simp add: secondContainer_def firstContainer_def sampleContainer_def orderedTask_def
      sampleTask_def sampleDriver_def dependencySatisfied_def ContainerStatus_ge_def)


section \<open>Results on the task engine\<close>

lemma capacity_TryConsume: "capacity (fst (TryConsume l t)) = capacity l"
  by (simp add: TryConsume_def)

lemma admitWaiting_split:
  "admitWaiting l q = (l', admitted, waiting) \<Longrightarrow>
   \<exists>n. admitted = map entryTask (take n q) \<and> waiting = drop n q"
proof (induction q arbitrary: l l' admitted waiting)
  case Nil
  then show ?case by simp
next
  case (Cons entry rest)
  show ?case
  proof (cases "snd (TryConsume l (entryTask entry))")
    case False
    with Cons.prems have "admitted = []" "waiting = entry # rest"
      by (auto split: prod.splits bool.splits)
    then have "admitted = map entryTask (take 0 (entry # rest)) \<and> waiting = drop 0 (entry # rest)"
      by simp
    then show ?thesis by blast
  next
    case True
    obtain l1 where l1: "TryConsume l (entryTask entry) = (l1, True)"
      using True by (cases "TryConsume l (entryTask entry)") auto
    obtain l2 adm2 wait2 where rec: "admitWaiting l1 rest = (l2, adm2, wait2)"
      by (cases "admitWaiting l1 rest") auto
    from Cons.prems l1 rec have eqs: "admitted = entryTask entry # adm2" "waiting = wait2"
      by auto
    from Cons.IH [OF rec] obtain n where "adm2 = map entryTask (take n rest)" "wait2 = drop n rest"
      by blast
    with eqs have "admitted = map entryTask (take (Suc n) (entry # rest))
        \<and> waiting = drop (Suc n) (entry # rest)"
      by simp
    then show ?thesis by blast
  qed
qed

lemma admitWaiting_consumed:
  "admitWaiting l q = (l', admitted, waiting) \<Longrightarrow>
   consumingArns l' \<subseteq> consumingArns l \<union> set (map Arn admitted)"
proof (induction q arbitrary: l l' admitted waiting)
  case Nil
  then show ?case by simp
next
  case (Cons entry rest)
  show ?case
  proof (cases "snd (TryConsume l (entryTask entry))")
    case False
    with Cons.prems have "l' = l"
      by (auto split: prod.splits bool.splits)
    then show ?thesis by blast
  next
    case True
    obtain l1 where l1: "TryConsume l (entryTask entry) = (l1, True)"
      using True by (cases "TryConsume l (entryTask entry)") auto
    obtain l2 adm2 wait2 where rec: "admitWaiting l1 rest = (l2, adm2, wait2)"
      by (cases "admitWaiting l1 rest") auto
    from Cons.prems l1 rec have eqs: "admitted = entryTask entry # adm2" "l' = l2"
      by auto
    from consumingArns_TryConsume [of l "entryTask entry"] l1
    have "consumingArns l1 \<subseteq> insert (Arn (entryTask entry)) (consumingArns l)"
      by simp
    with Cons.IH [OF rec] eqs show ?thesis by auto
  qed
qed


lemma invariant_new: "engineInvariant (newEngine exemptTypes hostResources)"
  by (simp add: engineInvariant_def newEngine_def queuedArns_def managedArns_def
      consumingArns_def)

lemma invariant_upsert: "engineInvariant e \<Longrightarrow> engineInvariant (upsertTask e t)"
proof -
  assume inv: "engineInvariant e"
  have "map Arn (managedTasks (upsertTask e t)) = map Arn (managedTasks e)"
    by (simp add: upsertTask_def comp_def)
  then have m: "managedArns (upsertTask e t) = managedArns e"
    by (simp add: managedArns_def)
  have "waitingQueue (upsertTask e t) = waitingQueue e" "ledger (upsertTask e t) = ledger e"
    "clock (upsertTask e t) = clock e"
    by (simp_all add: upsertTask_def)
  with inv m show ?thesis by (simp add: engineInvariant_def queuedArns_def)
qed

lemma invariant_stopQueued: "engineInvariant e \<Longrightarrow> engineInvariant (stopQueuedTask e a)"
proof (cases "find (\<lambda>entry. Arn (entryTask entry) = a) (waitingQueue e)")
  case None
  assume "engineInvariant e"
  with None show ?thesis by (simp add: stopQueuedTask_def)
next
  case (Some entry)
  assume inv: "engineInvariant e"
  let ?e' = "stopQueuedTask e a"
  have q: "waitingQueue ?e' = filter (\<lambda>entry. Arn (entryTask entry) \<noteq> a) (waitingQueue e)"
    and rest: "ledger ?e' = ledger e" "clock ?e' = clock e" "managedTasks ?e' = managedTasks e"
    using Some by (simp_all add: stopQueuedTask_def Remove_def)
  have m: "managedArns ?e' = managedArns e"
    using rest by (simp add: managedArns_def)
  have qa: "queuedArns ?e' \<subseteq> queuedArns e"
    by (auto simp: queuedArns_def q)
  from inv qa show ?thesis
    unfolding engineInvariant_def q rest m
    by (auto simp: list_all_iff sorted_wrt_filter sorted_wrt_map distinct_map_filter)
qed

lemma invariant_start:
  assumes inv: "engineInvariant e" and nq: "Arn t \<notin> queuedArns e"
  shows "engineInvariant (e\<lparr> ledger := fst (TryConsume (ledger e) t),
                              managedTasks := managedTasks e @ [t] \<rparr>)"
proof -
  let ?e' = "e\<lparr> ledger := fst (TryConsume (ledger e) t), managedTasks := managedTasks e @ [t] \<rparr>"
  have m: "managedArns ?e' = insert (Arn t) (managedArns e)"
    by (simp add: managedArns_def)
  have q: "queuedArns ?e' = queuedArns e"
    by (simp add: queuedArns_def)
  have c: "consumingArns (ledger ?e') \<subseteq> insert (Arn t) (consumingArns (ledger e))"
    using consumingArns_TryConsume [of "ledger e" t] by simp
  from inv have "consumingArns (ledger e) \<subseteq> managedArns e" "queuedArns e \<inter> managedArns e = {}"
    by (simp_all add: engineInvariant_def)
  with c nq have "consumingArns (ledger ?e') \<subseteq> managedArns ?e'"
    and "queuedArns ?e' \<inter> managedArns ?e' = {}"
    unfolding m q by blast+
  with inv show ?thesis
    by (simp add: engineInvariant_def)
qed

lemma invariant_enqueue:
  assumes inv: "engineInvariant e" and nq: "Arn t \<notin> queuedArns e"
    and nm: "Arn t \<notin> managedArns e"
  shows "engineInvariant (e\<lparr> waitingQueue := Enqueue (waitingQueue e) t (clock e),
                              clock := Suc (clock e) \<rparr>)"
proof -
  let ?e' = "e\<lparr> waitingQueue := Enqueue (waitingQueue e) t (clock e), clock := Suc (clock e) \<rparr>"
  have m: "managedArns ?e' = managedArns e"
    by (simp add: managedArns_def)
  have q: "queuedArns ?e' = insert (Arn t) (queuedArns e)"
    by (simp add: queuedArns_def Enqueue_def)
  from inv have "queuedArns e \<inter> managedArns e = {}"
    by (simp add: engineInvariant_def)
  with nm have disj: "queuedArns ?e' \<inter> managedArns ?e' = {}"
    unfolding m q by blast
  have sorted: "sorted_wrt (<) (map enqueueTime (waitingQueue ?e'))"
    using inv by (auto simp: engineInvariant_def Enqueue_def sorted_wrt_append list_all_iff)
  have times: "list_all (\<lambda>entry. enqueueTime entry < clock ?e') (waitingQueue ?e')"
    using inv by (auto simp: engineInvariant_def Enqueue_def list_all_iff less_Suc_eq)
  have dist: "distinct (map (\<lambda>entry. Arn (entryTask entry)) (waitingQueue ?e'))"
    using inv nq by (auto simp: engineInvariant_def Enqueue_def queuedArns_def)
  from inv have "consumingArns (ledger ?e') \<subseteq> managedArns ?e'"
    by (simp add: engineInvariant_def m)
  with sorted times dist disj show ?thesis
    unfolding engineInvariant_def by blast
qed

lemma invariant_AddTask: "engineInvariant e \<Longrightarrow> engineInvariant (AddTask e t)"
proof -
  assume inv: "engineInvariant e"
  show ?thesis
  proof (cases "isManaged e (Arn t)")
    case True
    with inv show ?thesis by (simp add: AddTask_def invariant_upsert)
  next
    case nm: False
    show ?thesis
    proof (cases "isQueued e (Arn t)")
      case True
      with nm inv show ?thesis by (simp add: AddTask_def invariant_stopQueued)
    next
      case nq: False
      obtain l b where tc: "TryConsume (ledger e) t = (l, b)"
        by (cases "TryConsume (ledger e) t") auto
      from nq nm have nq': "Arn t \<notin> queuedArns e" and nm': "Arn t \<notin> managedArns e"
        by (simp_all add: isQueued_iff isManaged_iff)
      show ?thesis
      proof (cases b)
        case True
        with invariant_start [OF inv nq'] tc nm nq show ?thesis
          by (simp add: AddTask_def)
      next
        case False
        with invariant_enqueue [OF inv nq' nm'] tc nm nq show ?thesis
          by (simp add: AddTask_def)
      qed
    qed
  qed
qed

lemma invariant_CleanupTask: "engineInvariant e \<Longrightarrow> engineInvariant (CleanupTask e a)"
proof -
  assume inv: "engineInvariant e"
  obtain l admitted waiting where
    adm: "admitWaiting (Release (ledger e) a) (waitingQueue e) = (l, admitted, waiting)"
    by (cases "admitWaiting (Release (ledger e) a) (waitingQueue e)") auto
  from admitWaiting_split [OF adm] obtain n where
    admitted: "admitted = map entryTask (take n (waitingQueue e))"
    and waiting: "waiting = drop n (waitingQueue e)"
    by blast
  let ?e' = "CleanupTask e a"
  let ?arn = "\<lambda>entry. Arn (entryTask entry)"
  let ?taken = "set (map ?arn (take n (waitingQueue e)))"
  let ?left = "set (map ?arn (drop n (waitingQueue e)))"
  have q: "waitingQueue ?e' = drop n (waitingQueue e)"
    and c: "clock ?e' = clock e"
    and mt: "managedTasks ?e' = filter (\<lambda>t. Arn t \<noteq> a) (managedTasks e)
               @ map entryTask (take n (waitingQueue e))"
    and l: "ledger ?e' = l"
    using adm admitted waiting by (simp_all add: CleanupTask_def)
  have m: "managedArns ?e' = (managedArns e - {a}) \<union> ?taken"
    unfolding managedArns_def mt by auto
  have qa: "queuedArns ?e' = ?left"
    by (simp add: queuedArns_def q)
  have whole: "queuedArns e = ?taken \<union> ?left"
  proof -
    have "set (waitingQueue e) = set (take n (waitingQueue e)) \<union> set (drop n (waitingQueue e))"
      by (metis append_take_drop_id set_append)
    then show ?thesis by (simp add: queuedArns_def image_Un)
  qed
  have cons: "consumingArns l \<subseteq> (consumingArns (ledger e) - {a}) \<union> ?taken"
    using admitWaiting_consumed [OF adm] admitted
    by (simp add: consumingArns_Release comp_def)
  have sorted: "sorted_wrt (<) (map enqueueTime (drop n (waitingQueue e)))"
    using inv by (simp add: engineInvariant_def flip: drop_map)
  have times: "list_all (\<lambda>entry. enqueueTime entry < clock e) (drop n (waitingQueue e))"
    using inv by (auto simp: engineInvariant_def list_all_iff dest: in_set_dropD)
  have dist: "distinct (map ?arn (drop n (waitingQueue e)))"
    using inv by (simp add: engineInvariant_def flip: drop_map)
  have disj: "?taken \<inter> ?left = {}"
  proof -
    from inv have "distinct (map ?arn (take n (waitingQueue e) @ drop n (waitingQueue e)))"
      by (simp add: engineInvariant_def)
    then show ?thesis
      unfolding map_append distinct_append by simp
  qed
  from inv have old: "queuedArns e \<inter> managedArns e = {}"
    "consumingArns (ledger e) \<subseteq> managedArns e"
    by (simp_all add: engineInvariant_def)
  have notmanaged: "queuedArns ?e' \<inter> managedArns ?e' = {}"
    unfolding qa m using old(1) disj whole by blast
  have managed: "consumingArns (ledger ?e') \<subseteq> managedArns ?e'"
    unfolding l m using old(2) cons by blast
  show ?thesis
    unfolding engineInvariant_def
    using sorted times dist notmanaged managed by (simp add: q c)
qed

lemma invariant_loop:
  assumes inv: "engineInvariant e" and arns: "map Arn changed = map Arn (managedTasks e)"
  shows "engineInvariant (e\<lparr> managedTasks := changed,
                              stateChangeEvents := stateChangeEvents e @ emitted \<rparr>)"
  using inv arns by (simp add: engineInvariant_def managedArns_def queuedArns_def)

lemma reachable_invariant: "reachable e \<Longrightarrow> engineInvariant e"
  by (induction rule: reachable.induct)
     (simp_all add: invariant_new invariant_AddTask invariant_CleanupTask invariant_loop)













lemma find_distinct:
  "distinct (map f xs) \<Longrightarrow> x \<in> set xs \<Longrightarrow> find (\<lambda>y. f y = f x) xs = Some x"
  by (induction xs) (auto simp: image_iff)

lemma ge_stopped_iff: "ContainerStatus_ge s ContainerStopped \<longleftrightarrow> s = ContainerStopped"
  by (cases s) (simp_all add: ContainerStatus_ge_def)

lemma emit_stopped_container:
  assumes "\<not> (IsServiceConnectEnabled t \<and> IsNetworkModeBridge t)"
    and "SteadyStateStatus c \<noteq> ContainerStopped"
  shows "emitContainerEvent t evs
           (c\<lparr>Container.DesiredStatus := ContainerStopped,
               Container.KnownStatus := ContainerStopped\<rparr>)
         = evs @ (if \<not> Container.IsInternal c \<and> Container.SentStatus c \<noteq> ContainerStopped
                  then [ContainerEvent
                          \<lparr> TaskArn = Arn t,
                            RuntimeID = Container.RuntimeID c,
                            ContainerName = Name c,
                            Status = ContainerStopped,
                            ImageDigest = Container.ImageDigest c,
                            Reason = (case ApplyingError c of None \<Rightarrow> [] | Some msg \<Rightarrow> msg),
                            ExitCode = KnownExitCode c,
                            PortBindings = KnownPortBindings c,
                            Container = Some (c\<lparr>Container.DesiredStatus := ContainerStopped,
                                                Container.KnownStatus := ContainerStopped\<rparr>) \<rparr>]
                  else [])"
  using assms
  by (auto simp: emitContainerEvent_def NewContainerStateChangeEvent_def
      newUncheckedContainerStateChangeEvent_def ContainerStatus_ShouldReportToBackend_def
      containerStatusChangeStatus_def ge_stopped_iff Let_def split: option.splits)

lemma emit_stopped_containers:
  assumes "\<not> (IsServiceConnectEnabled t \<and> IsNetworkModeBridge t)"
  shows "list_all (\<lambda>c. SteadyStateStatus c \<noteq> ContainerStopped) cs \<Longrightarrow>
    foldl (emitContainerEvent t) evs
      (map (\<lambda>c. c\<lparr>Container.DesiredStatus := ContainerStopped,
                   Container.KnownStatus := ContainerStopped\<rparr>) cs)
    = evs @ map (\<lambda>c. ContainerEvent
                    \<lparr> TaskArn = Arn t,
                      RuntimeID = Container.RuntimeID c,
                      ContainerName = Name c,
                      Status = ContainerStopped,
                      ImageDigest = Container.ImageDigest c,
                      Reason = (case ApplyingError c of None \<Rightarrow> [] | Some msg \<Rightarrow> msg),
                      ExitCode = KnownExitCode c,
                      PortBindings = KnownPortBindings c,
                      Container = Some (c\<lparr>Container.DesiredStatus := ContainerStopped,
                                          Container.KnownStatus := ContainerStopped\<rparr>) \<rparr>)
              (filter (\<lambda>c. \<not> Container.IsInternal c \<and> Container.SentStatus c \<noteq> ContainerStopped)
                 cs)"
proof (induction cs arbitrary: evs)
  case Nil
  then show ?case by simp
next
  case (Cons c cs)
  from Cons.prems have steady: "SteadyStateStatus c \<noteq> ContainerStopped"
    and rest: "list_all (\<lambda>c. SteadyStateStatus c \<noteq> ContainerStopped) cs"
    by simp_all
  show ?case
    by (simp add: emit_stopped_container [OF assms steady] Cons.IH [OF rest])
qed

lemma emit_stopped_task:
  "emitTaskEvent (markStopped t) evs
     = evs @ (if \<not> Task.IsInternal t \<and> Task.SentStatus t \<noteq> TaskStopped
              then [TaskEvent
                      \<lparr> Attachment = None, TaskARN = Arn t, Status = TaskStopped, Reason = [],
                        Containers = [], ManagedAgents = [],
                        PullStartedAt = (if Task.PullStartedAt t \<noteq> 0
                                         then Some (Task.PullStartedAt t) else None),
                        PullStoppedAt = (if Task.PullStoppedAt t \<noteq> 0
                                         then Some (Task.PullStoppedAt t) else None),
                        ExecutionStoppedAt = (if Task.ExecutionStoppedAt t \<noteq> 0
                                              then Some (Task.ExecutionStoppedAt t) else None),
                        Task = Some (markStopped t) \<rparr>]
              else [])"
proof -
  have sent: "TaskStatus_ge (Task.SentStatus t) TaskStopped \<longleftrightarrow> Task.SentStatus t = TaskStopped"
    by (cases "Task.SentStatus t") (simp_all add: TaskStatus_ge_def)
  have fields: "Task.IsInternal (markStopped t) = Task.IsInternal t"
    "Task.KnownStatus (markStopped t) = TaskStopped"
    "Task.SentStatus (markStopped t) = Task.SentStatus t"
    "Arn (markStopped t) = Arn t"
    "Task.PullStartedAt (markStopped t) = Task.PullStartedAt t"
    "Task.PullStoppedAt (markStopped t) = Task.PullStoppedAt t"
    "Task.ExecutionStoppedAt (markStopped t) = Task.ExecutionStoppedAt t"
    by (simp_all add: markStopped_def)
  show ?thesis
  proof (cases "Task.SentStatus t = TaskStopped")
    case True
    then show ?thesis
      by (simp add: emitTaskEvent_def NewTaskStateChangeEvent_def
          TaskStatus_BackendRecognized_def Let_def fields TaskStatus_ge_def)
  next
    case False
    with sent have "\<not> TaskStatus_ge (Task.SentStatus t) TaskStopped" by simp
    with False show ?thesis
      by (simp add: emitTaskEvent_def NewTaskStateChangeEvent_def
          TaskStatus_BackendRecognized_def SetTaskTimestamps_def Let_def fields)
  qed
qed

lemma stoppedEvents_eq:
  assumes "\<not> (IsServiceConnectEnabled t \<and> IsNetworkModeBridge t)"
    and "list_all (\<lambda>c. SteadyStateStatus c \<noteq> ContainerStopped) (Task.Containers t)"
  shows "stoppedEvents t
     = map (\<lambda>c. ContainerEvent
                    \<lparr> TaskArn = Arn t,
                      RuntimeID = Container.RuntimeID c,
                      ContainerName = Name c,
                      Status = ContainerStopped,
                      ImageDigest = Container.ImageDigest c,
                      Reason = (case ApplyingError c of None \<Rightarrow> [] | Some msg \<Rightarrow> msg),
                      ExitCode = KnownExitCode c,
                      PortBindings = KnownPortBindings c,
                      Container = Some (c\<lparr>Container.DesiredStatus := ContainerStopped,
                                          Container.KnownStatus := ContainerStopped\<rparr>) \<rparr>)
         (filter (\<lambda>c. \<not> Container.IsInternal c \<and> Container.SentStatus c \<noteq> ContainerStopped)
            (Task.Containers t))
       @ (if \<not> Task.IsInternal t \<and> Task.SentStatus t \<noteq> TaskStopped
          then [TaskEvent
                  \<lparr> Attachment = None, TaskARN = Arn t, Status = TaskStopped, Reason = [],
                    Containers = [], ManagedAgents = [],
                    PullStartedAt = (if Task.PullStartedAt t \<noteq> 0
                                     then Some (Task.PullStartedAt t) else None),
                    PullStoppedAt = (if Task.PullStoppedAt t \<noteq> 0
                                     then Some (Task.PullStoppedAt t) else None),
                    ExecutionStoppedAt = (if Task.ExecutionStoppedAt t \<noteq> 0
                                          then Some (Task.ExecutionStoppedAt t) else None),
                    Task = Some (markStopped t) \<rparr>]
          else [])"
proof -
  have bridge: "\<not> (IsServiceConnectEnabled (markStopped t) \<and> IsNetworkModeBridge (markStopped t))"
    using assms(1) by (simp add: markStopped_def)
  have conts: "Task.Containers (markStopped t)
      = map (\<lambda>c. c\<lparr>Container.DesiredStatus := ContainerStopped,
                    Container.KnownStatus := ContainerStopped\<rparr>) (Task.Containers t)"
    and arn: "Arn (markStopped t) = Arn t"
    by (simp_all add: markStopped_def)
  show ?thesis
    unfolding stoppedEvents_def emit_stopped_task conts
      emit_stopped_containers [OF bridge assms(2)] arn
    by simp
qed

text \<open>
  C6: stopping a task that still waits in the queue. In a reachable state, let a task wait
  in the queue and let \<^verbatim>\<open>AddTask\<close> receive a task of the same ARN whose desired status
  is STOPPED. Then that one call puts the STOPPED events of the waiting task on the event
  stream. For a task that is not a service-connect task in bridge mode and none of whose
  containers has STOPPED as its steady state, these are exactly: one STOPPED event for each
  container that is not internal and whose STOPPED status was not sent, in the order of the
  containers, each with the runtime identifier, digest, exit code and port bindings the
  container had while it waited; followed, for a task that is not internal and whose
  STOPPED status was not sent, by the STOPPED event of the task. The call changes neither
  the ledger, in which the task does not consume, nor the managed tasks, among which the
  task is not, nor the clock; and it takes the task, and nothing else, out of the queue.
\<close>

theorem stop_of_queued_task:
  "reachable e \<and> entry \<in> set (waitingQueue e) \<and> Arn stop = Arn (entryTask entry)
   \<and> Task.DesiredStatus stop = TaskStopped
   \<longrightarrow>
   stateChangeEvents (AddTask e stop) = stateChangeEvents e @ stoppedEvents (entryTask entry)
   \<and> (\<not> (IsServiceConnectEnabled (entryTask entry) \<and> IsNetworkModeBridge (entryTask entry))
       \<and> list_all (\<lambda>c. SteadyStateStatus c \<noteq> ContainerStopped)
            (Task.Containers (entryTask entry))
        \<longrightarrow> stoppedEvents (entryTask entry)
            = map (\<lambda>c. ContainerEvent
                   \<lparr> TaskArn = Arn (entryTask entry),
                     RuntimeID = Container.RuntimeID c,
                     ContainerName = Name c,
                     Status = ContainerStopped,
                     ImageDigest = Container.ImageDigest c,
                     Reason = (case ApplyingError c of None \<Rightarrow> [] | Some msg \<Rightarrow> msg),
                     ExitCode = KnownExitCode c,
                     PortBindings = KnownPortBindings c,
                     Container = Some (c\<lparr>Container.DesiredStatus := ContainerStopped,
                                         Container.KnownStatus := ContainerStopped\<rparr>) \<rparr>)
                (filter (\<lambda>c. \<not> Container.IsInternal c
                              \<and> Container.SentStatus c \<noteq> ContainerStopped)
                   (Task.Containers (entryTask entry)))
              @ (if \<not> Task.IsInternal (entryTask entry)
                    \<and> Task.SentStatus (entryTask entry) \<noteq> TaskStopped
                 then [TaskEvent
                         \<lparr> Attachment = None, TaskARN = Arn (entryTask entry),
                           Status = TaskStopped, Reason = [], Containers = [],
                           ManagedAgents = [],
                           PullStartedAt =
                             (if Task.PullStartedAt (entryTask entry) \<noteq> 0
                              then Some (Task.PullStartedAt (entryTask entry)) else None),
                           PullStoppedAt =
                             (if Task.PullStoppedAt (entryTask entry) \<noteq> 0
                              then Some (Task.PullStoppedAt (entryTask entry)) else None),
                           ExecutionStoppedAt =
                             (if Task.ExecutionStoppedAt (entryTask entry) \<noteq> 0
                              then Some (Task.ExecutionStoppedAt (entryTask entry)) else None),
                           Task = Some (markStopped (entryTask entry)) \<rparr>]
                 else []))
   \<and> (\<not> Task.IsInternal (entryTask entry) \<and> Task.SentStatus (entryTask entry) \<noteq> TaskStopped
        \<longrightarrow> (\<exists>event. stoppedEvents (entryTask entry) \<noteq> []
               \<and> last (stoppedEvents (entryTask entry)) = TaskEvent event
               \<and> TaskStateChange.Status event = TaskStopped
               \<and> TaskARN event = Arn stop))
   \<and> ledger (AddTask e stop) = ledger e
   \<and> \<not> IsConsuming (ledger (AddTask e stop)) (Arn stop)
   \<and> managedTasks (AddTask e stop) = managedTasks e
   \<and> \<not> isManaged (AddTask e stop) (Arn stop)
   \<and> waitingQueue (AddTask e stop)
       = filter (\<lambda>other. Arn (entryTask other) \<noteq> Arn stop) (waitingQueue e)
   \<and> \<not> isQueued (AddTask e stop) (Arn stop)
   \<and> clock (AddTask e stop) = clock e"
proof (intro impI, elim conjE)
  assume reach: "reachable e" and entry: "entry \<in> set (waitingQueue e)"
    and arn: "Arn stop = Arn (entryTask entry)" and desired: "Task.DesiredStatus stop = TaskStopped"
  from reach have inv: "engineInvariant e" by (rule reachable_invariant)
  from entry have queued: "Arn stop \<in> queuedArns e"
    by (auto simp: queuedArns_def arn)
  with inv have notManaged: "Arn stop \<notin> managedArns e"
    by (auto simp: engineInvariant_def)
  with inv have notConsuming: "Arn stop \<notin> consumingArns (ledger e)"
    by (auto simp: engineInvariant_def)
  from inv entry have found:
    "find (\<lambda>other. Arn (entryTask other) = Arn stop) (waitingQueue e) = Some entry"
    unfolding arn engineInvariant_def
    using find_distinct [of "\<lambda>other. Arn (entryTask other)" "waitingQueue e" entry] by simp
  have step: "AddTask e stop
      = e\<lparr> waitingQueue := filter (\<lambda>other. Arn (entryTask other) \<noteq> Arn stop) (waitingQueue e),
           stateChangeEvents := stateChangeEvents e @ stoppedEvents (entryTask entry) \<rparr>"
    using queued notManaged desired found
    by (simp add: AddTask_def isManaged_iff isQueued_iff stopQueuedTask_def Remove_def)
  have gone: "Arn stop \<notin> queuedArns (AddTask e stop)"
    by (auto simp: step queuedArns_def)
  have same: "managedArns (AddTask e stop) = managedArns e"
    by (simp add: step managedArns_def)
  show "stateChangeEvents (AddTask e stop) = stateChangeEvents e @ stoppedEvents (entryTask entry)
   \<and> (\<not> (IsServiceConnectEnabled (entryTask entry) \<and> IsNetworkModeBridge (entryTask entry))
       \<and> list_all (\<lambda>c. SteadyStateStatus c \<noteq> ContainerStopped)
            (Task.Containers (entryTask entry))
        \<longrightarrow> stoppedEvents (entryTask entry)
            = map (\<lambda>c. ContainerEvent
                   \<lparr> TaskArn = Arn (entryTask entry),
                     RuntimeID = Container.RuntimeID c,
                     ContainerName = Name c,
                     Status = ContainerStopped,
                     ImageDigest = Container.ImageDigest c,
                     Reason = (case ApplyingError c of None \<Rightarrow> [] | Some msg \<Rightarrow> msg),
                     ExitCode = KnownExitCode c,
                     PortBindings = KnownPortBindings c,
                     Container = Some (c\<lparr>Container.DesiredStatus := ContainerStopped,
                                         Container.KnownStatus := ContainerStopped\<rparr>) \<rparr>)
                (filter (\<lambda>c. \<not> Container.IsInternal c
                              \<and> Container.SentStatus c \<noteq> ContainerStopped)
                   (Task.Containers (entryTask entry)))
              @ (if \<not> Task.IsInternal (entryTask entry)
                    \<and> Task.SentStatus (entryTask entry) \<noteq> TaskStopped
                 then [TaskEvent
                         \<lparr> Attachment = None, TaskARN = Arn (entryTask entry),
                           Status = TaskStopped, Reason = [], Containers = [],
                           ManagedAgents = [],
                           PullStartedAt =
                             (if Task.PullStartedAt (entryTask entry) \<noteq> 0
                              then Some (Task.PullStartedAt (entryTask entry)) else None),
                           PullStoppedAt =
                             (if Task.PullStoppedAt (entryTask entry) \<noteq> 0
                              then Some (Task.PullStoppedAt (entryTask entry)) else None),
                           ExecutionStoppedAt =
                             (if Task.ExecutionStoppedAt (entryTask entry) \<noteq> 0
                              then Some (Task.ExecutionStoppedAt (entryTask entry)) else None),
                           Task = Some (markStopped (entryTask entry)) \<rparr>]
                 else []))
   \<and> (\<not> Task.IsInternal (entryTask entry) \<and> Task.SentStatus (entryTask entry) \<noteq> TaskStopped
        \<longrightarrow> (\<exists>event. stoppedEvents (entryTask entry) \<noteq> []
               \<and> last (stoppedEvents (entryTask entry)) = TaskEvent event
               \<and> TaskStateChange.Status event = TaskStopped
               \<and> TaskARN event = Arn stop))
   \<and> ledger (AddTask e stop) = ledger e
   \<and> \<not> IsConsuming (ledger (AddTask e stop)) (Arn stop)
   \<and> managedTasks (AddTask e stop) = managedTasks e
   \<and> \<not> isManaged (AddTask e stop) (Arn stop)
   \<and> waitingQueue (AddTask e stop)
       = filter (\<lambda>other. Arn (entryTask other) \<noteq> Arn stop) (waitingQueue e)
   \<and> \<not> isQueued (AddTask e stop) (Arn stop)
   \<and> clock (AddTask e stop) = clock e"
  proof (intro conjI impI)
    assume "\<not> (IsServiceConnectEnabled (entryTask entry) \<and> IsNetworkModeBridge (entryTask entry))
       \<and> list_all (\<lambda>c. SteadyStateStatus c \<noteq> ContainerStopped)
            (Task.Containers (entryTask entry))"
    then have "\<not> (IsServiceConnectEnabled (entryTask entry) \<and> IsNetworkModeBridge (entryTask entry))"
      and "list_all (\<lambda>c. SteadyStateStatus c \<noteq> ContainerStopped)
            (Task.Containers (entryTask entry))"
      by simp_all
    then show "stoppedEvents (entryTask entry)
            = map (\<lambda>c. ContainerEvent
                   \<lparr> TaskArn = Arn (entryTask entry),
                     RuntimeID = Container.RuntimeID c,
                     ContainerName = Name c,
                     Status = ContainerStopped,
                     ImageDigest = Container.ImageDigest c,
                     Reason = (case ApplyingError c of None \<Rightarrow> [] | Some msg \<Rightarrow> msg),
                     ExitCode = KnownExitCode c,
                     PortBindings = KnownPortBindings c,
                     Container = Some (c\<lparr>Container.DesiredStatus := ContainerStopped,
                                         Container.KnownStatus := ContainerStopped\<rparr>) \<rparr>)
                (filter (\<lambda>c. \<not> Container.IsInternal c
                              \<and> Container.SentStatus c \<noteq> ContainerStopped)
                   (Task.Containers (entryTask entry)))
              @ (if \<not> Task.IsInternal (entryTask entry)
                    \<and> Task.SentStatus (entryTask entry) \<noteq> TaskStopped
                 then [TaskEvent
                         \<lparr> Attachment = None, TaskARN = Arn (entryTask entry),
                           Status = TaskStopped, Reason = [], Containers = [],
                           ManagedAgents = [],
                           PullStartedAt =
                             (if Task.PullStartedAt (entryTask entry) \<noteq> 0
                              then Some (Task.PullStartedAt (entryTask entry)) else None),
                           PullStoppedAt =
                             (if Task.PullStoppedAt (entryTask entry) \<noteq> 0
                              then Some (Task.PullStoppedAt (entryTask entry)) else None),
                           ExecutionStoppedAt =
                             (if Task.ExecutionStoppedAt (entryTask entry) \<noteq> 0
                              then Some (Task.ExecutionStoppedAt (entryTask entry)) else None),
                           Task = Some (markStopped (entryTask entry)) \<rparr>]
                 else [])"
      by (rule stoppedEvents_eq)
  next
    assume "\<not> Task.IsInternal (entryTask entry) \<and> Task.SentStatus (entryTask entry) \<noteq> TaskStopped"
    then show "\<exists>event. stoppedEvents (entryTask entry) \<noteq> []
               \<and> last (stoppedEvents (entryTask entry)) = TaskEvent event
               \<and> TaskStateChange.Status event = TaskStopped
               \<and> TaskARN event = Arn stop"
      unfolding stoppedEvents_def emit_stopped_task by (simp add: arn)
  next
    show "\<not> IsConsuming (ledger (AddTask e stop)) (Arn stop)"
      using notConsuming by (simp add: IsConsuming_iff step)
    show "\<not> isManaged (AddTask e stop) (Arn stop)"
      using notManaged by (simp add: isManaged_iff same)
    show "\<not> isQueued (AddTask e stop) (Arn stop)"
      using gone by (simp add: isQueued_iff)
  qed (simp_all add: step)
qed

lemma oneWaiting_eq:
  "oneWaiting =
     \<lparr> ledger = \<lparr> capacity = testHostResources, exempt = testExemptLaunchType,
                  consumed = [(''IntegTaskArn-0'', \<lparr> cpu = 0, memory = 768, ports = [] \<rparr>)] \<rparr>,
       waitingQueue = [\<lparr> entryTask = waitingTask, enqueueTime = 0 \<rparr>],
       managedTasks = [runningTask],
       stateChangeEvents = [], clock = 1 \<rparr>"
  by (simp add: oneWaiting_def AddTask_def newEngine_def isManaged_def isQueued_def Remove_def
      TryConsume_def testExemptLaunchType_def IsConsuming_def fits_def taskRequirements_def
      testHostResources_def Enqueue_def runningTask_def waitingTask_def sampleTask_def
      sampleContainer_def)

lemma oneWaiting_reachable: "reachable oneWaiting"
  unfolding oneWaiting_def by (intro reachable.intros)

theorem stop_of_queued_task_witness:
  "stateChangeEvents (AddTask oneWaiting stopWaitingTask)
     = [ContainerEvent
          \<lparr> TaskArn = ''IntegTaskArn-1'', RuntimeID = [], ContainerName = ''A'',
            Status = ContainerStopped, ImageDigest = [], Reason = [], ExitCode = None,
            PortBindings = [],
            Container = Some (sampleContainer\<lparr>Container.DesiredStatus := ContainerStopped,
                                              Container.KnownStatus := ContainerStopped\<rparr>) \<rparr>,
        TaskEvent
          \<lparr> Attachment = None, TaskARN = ''IntegTaskArn-1'', Status = TaskStopped,
            Reason = [], Containers = [], ManagedAgents = [], PullStartedAt = None,
            PullStoppedAt = None, ExecutionStoppedAt = None,
            Task = Some (markStopped waitingTask) \<rparr>]
   \<and> ledger (AddTask oneWaiting stopWaitingTask) = ledger oneWaiting
   \<and> \<not> IsConsuming (ledger (AddTask oneWaiting stopWaitingTask)) ''IntegTaskArn-1''
   \<and> managedTasks (AddTask oneWaiting stopWaitingTask) = [runningTask]
   \<and> waitingQueue (AddTask oneWaiting stopWaitingTask) = []"
proof -
  have entry: "\<lparr> entryTask = waitingTask, enqueueTime = 0 \<rparr> \<in> set (waitingQueue oneWaiting)"
    by (simp add: oneWaiting_eq)
  have stop: "Arn stopWaitingTask = Arn waitingTask" "Arn stopWaitingTask = ''IntegTaskArn-1''"
    "Task.DesiredStatus stopWaitingTask = TaskStopped"
    by (simp_all add: stopWaitingTask_def waitingTask_def sampleTask_def)
  have task: "\<not> Task.IsInternal waitingTask" "Task.SentStatus waitingTask \<noteq> TaskStopped"
    "\<not> (IsServiceConnectEnabled waitingTask \<and> IsNetworkModeBridge waitingTask)"
    "Task.Containers waitingTask = [sampleContainer]"
    "Task.PullStartedAt waitingTask = 0" "Task.PullStoppedAt waitingTask = 0"
    "Task.ExecutionStoppedAt waitingTask = 0"
    by (simp_all add: waitingTask_def sampleTask_def)
  have cont: "SteadyStateStatus sampleContainer \<noteq> ContainerStopped"
    "\<not> Container.IsInternal sampleContainer"
    "Container.SentStatus sampleContainer \<noteq> ContainerStopped"
    "Container.RuntimeID sampleContainer = []" "Name sampleContainer = ''A''"
    "Container.ImageDigest sampleContainer = []" "ApplyingError sampleContainer = None"
    "KnownExitCode sampleContainer = None" "KnownPortBindings sampleContainer = []"
    by (simp_all add: sampleContainer_def)
  have rest: "stateChangeEvents oneWaiting = []" "managedTasks oneWaiting = [runningTask]"
    "filter (\<lambda>other. Arn (entryTask other) \<noteq> Arn stopWaitingTask) (waitingQueue oneWaiting) = []"
    by (simp_all add: oneWaiting_eq stop)
  from stop_of_queued_task
    [of oneWaiting "\<lparr> entryTask = waitingTask, enqueueTime = 0 \<rparr>" stopWaitingTask]
  show ?thesis
    using oneWaiting_reachable entry stop task cont rest by auto
qed

end
